theory Spec2Isabelle
  imports Complex_Main
begin

section \<open>Python values and exceptions\<close>

text \<open>
  The bot is asynchronous Python. Exceptions are values of \<open>py_exc\<close>; a computation
  that may raise returns \<open>py_exc + 'a\<close>, with \<open>Inl\<close> for the raised exception.
\<close>

datatype py_exc =
    ValueError
  | TypeError
  | JSONDecodeError
  | IOError
  | PermissionError
  | UnicodeDecodeError
  | RecursionError
  | ZeroDivisionError
  | OverflowError
  | InvalidOperation
  | RuntimeError
  | ClientError

text \<open>
  \<open>is_instance e c\<close>: an exception of class \<open>e\<close> is caught by \<open>except c\<close>.
  \<open>json.JSONDecodeError\<close> and \<open>UnicodeDecodeError\<close> are subclasses of
  \<open>ValueError\<close>; \<open>IOError\<close> is the built-in alias of \<open>OSError\<close>, of which
  \<open>PermissionError\<close> is a subclass; \<open>RecursionError\<close> is a subclass of
  \<open>RuntimeError\<close>. \<open>ZeroDivisionError\<close>, \<open>OverflowError\<close> and
  \<open>decimal.InvalidOperation\<close> are subclasses of \<open>ArithmeticError\<close>, which no
  \<open>except\<close> clause of the bot names; \<open>ClientError\<close> stands for the errors of the HTTP
  and database clients. No other class of the list is a subclass of another one.
\<close>

definition is_instance :: "py_exc \<Rightarrow> py_exc \<Rightarrow> bool" where
  "is_instance e c =
     (e = c \<or> (c = ValueError \<and> (e = JSONDecodeError \<or> e = UnicodeDecodeError))
            \<or> (c = IOError \<and> e = PermissionError)
            \<or> (c = RuntimeError \<and> e = RecursionError))"

section \<open>Floats\<close>

text \<open>
  A Python float is an IEEE 754 double: a finite value, an infinity or NaN. A finite
  double is a real number \<open>m * 2^e\<close> with \<open>|m| < 2^53\<close> and \<open>-1074 \<le> e \<le> 971\<close>; the two
  zeros are not told apart.
\<close>

datatype pyfloat = Fin real | PosInf | NegInf | NaN

text \<open>The number of digits of a positive integer \<open>n\<close> in base \<open>b\<close>.\<close>

function digit_count :: "int \<Rightarrow> int \<Rightarrow> int" where
  "digit_count b n = (if n \<le> 0 \<or> b \<le> 1 then 0 else 1 + digit_count b (n div b))"
  by pat_completeness auto
termination
  by (relation "measure (\<lambda>(b, n). nat n)") (auto simp add: int_div_less_self)

definition pow2 :: "int \<Rightarrow> real" where
  "pow2 e = (if 0 \<le> e then 2 ^ nat e else 1 / 2 ^ nat (- e))"

definition pow10 :: "int \<Rightarrow> real" where
  "pow10 e = (if 0 \<le> e then 10 ^ nat e else 1 / 10 ^ nat (- e))"

text \<open>
  For \<open>x > 0\<close>, the exponent \<open>k\<close> with \<open>2^k \<le> x < 2^(k+1)\<close>, and the same in base 10:
  from the length of the integer part when \<open>x \<ge> 1\<close>, from the length of the integer
  part of the inverse otherwise.
\<close>

definition ilog2 :: "real \<Rightarrow> int" where
  "ilog2 x = (if 1 \<le> x then digit_count 2 \<lfloor>x\<rfloor> - 1
              else - digit_count 2 (\<lceil>1 / x\<rceil> - 1))"

definition ilog10 :: "real \<Rightarrow> int" where
  "ilog10 x = (if 1 \<le> x then digit_count 10 \<lfloor>x\<rfloor> - 1
               else - digit_count 10 (\<lceil>1 / x\<rceil> - 1))"

text \<open>Rounding to the nearest integer, a tie going to the even one.\<close>

definition round_half_even :: "real \<Rightarrow> int" where
  "round_half_even q =
     (let f = \<lfloor>q\<rfloor>; r = q - real_of_int f
      in if r < 1 / 2 then f else if 1 / 2 < r then f + 1 else if even f then f else f + 1)"

text \<open>
  The rounding of every float operation and of \<open>float("...")\<close>: the double nearest to
  the exact value, a tie going to the even significand. The significand has 53 bits,
  fewer below \<open>2^-1022\<close>, where the doubles are the multiples of \<open>2^-1074\<close>; a result
  that rounds to \<open>2^1024\<close> or more is an infinity.
\<close>

definition round_to_double :: "real \<Rightarrow> pyfloat" where
  "round_to_double x =
     (if x = 0 then Fin 0
      else
        (let a = \<bar>x\<bar>;
             e = max (ilog2 a - 52) (- 1074);
             y = real_of_int (round_half_even (a / pow2 e)) * pow2 e
         in if 2 ^ 1024 \<le> y then (if 0 < x then PosInf else NegInf)
            else Fin (if 0 < x then y else - y)))"

text \<open>
  The numbers that the outside supplies as floats (the amount of the message, the
  answers of the two providers, the numbers of a JSON document) are written as reals;
  such a number stands for the float nearest to it, which is the number itself when it
  is a double. For the decimal text of a number this is what \<open>float\<close> and \<open>json.load\<close>
  return.
\<close>

definition as_float :: "real \<Rightarrow> pyfloat" where
  "as_float x = round_to_double x"

text \<open>The comparisons \<open><\<close> and \<open><=\<close> of floats: false whenever an operand is NaN.\<close>

fun flt :: "pyfloat \<Rightarrow> pyfloat \<Rightarrow> bool" where
  "flt NaN y = False"
| "flt x NaN = False"
| "flt (Fin x) (Fin y) = (x < y)"
| "flt PosInf y = False"
| "flt x PosInf = True"
| "flt x NegInf = False"
| "flt NegInf y = True"

fun fle :: "pyfloat \<Rightarrow> pyfloat \<Rightarrow> bool" where
  "fle NaN y = False"
| "fle x NaN = False"
| "fle (Fin x) (Fin y) = (x \<le> y)"
| "fle x PosInf = True"
| "fle PosInf y = False"
| "fle NegInf y = True"
| "fle x NegInf = False"

text \<open>
  The built-ins \<open>abs\<close>, \<open>min(a, b)\<close> and \<open>max(a, b)\<close>: \<open>min\<close> returns \<open>b\<close> when
  \<open>b < a\<close> and \<open>a\<close> otherwise, \<open>max\<close> returns \<open>b\<close> when \<open>b > a\<close> and \<open>a\<close> otherwise.
\<close>

fun fabs :: "pyfloat \<Rightarrow> pyfloat" where
  "fabs (Fin x) = Fin \<bar>x\<bar>"
| "fabs PosInf = PosInf"
| "fabs NegInf = PosInf"
| "fabs NaN = NaN"

definition fmin :: "pyfloat \<Rightarrow> pyfloat \<Rightarrow> pyfloat" where
  "fmin a b = (if flt b a then b else a)"

definition fmax :: "pyfloat \<Rightarrow> pyfloat \<Rightarrow> pyfloat" where
  "fmax a b = (if flt a b then b else a)"

text \<open>Truth value of a float: false for zero only.\<close>

fun float_truthy :: "pyfloat \<Rightarrow> bool" where
  "float_truthy (Fin x) = (x \<noteq> 0)"
| "float_truthy x = True"

text \<open>Subtraction and multiplication: the exact result, rounded.\<close>

fun fsub :: "pyfloat \<Rightarrow> pyfloat \<Rightarrow> pyfloat" where
  "fsub NaN y = NaN"
| "fsub x NaN = NaN"
| "fsub (Fin x) (Fin y) = round_to_double (x - y)"
| "fsub PosInf PosInf = NaN"
| "fsub NegInf NegInf = NaN"
| "fsub PosInf y = PosInf"
| "fsub NegInf y = NegInf"
| "fsub x PosInf = NegInf"
| "fsub x NegInf = PosInf"

fun fmul :: "pyfloat \<Rightarrow> pyfloat \<Rightarrow> pyfloat" where
  "fmul NaN y = NaN"
| "fmul x NaN = NaN"
| "fmul (Fin x) (Fin y) = round_to_double (x * y)"
| "fmul (Fin x) PosInf = (if x = 0 then NaN else if 0 < x then PosInf else NegInf)"
| "fmul (Fin x) NegInf = (if x = 0 then NaN else if 0 < x then NegInf else PosInf)"
| "fmul PosInf (Fin y) = (if y = 0 then NaN else if 0 < y then PosInf else NegInf)"
| "fmul NegInf (Fin y) = (if y = 0 then NaN else if 0 < y then NegInf else PosInf)"
| "fmul PosInf PosInf = PosInf"
| "fmul NegInf NegInf = PosInf"
| "fmul PosInf NegInf = NegInf"
| "fmul NegInf PosInf = NegInf"

text \<open>
  Division: a zero divisor raises \<open>ZeroDivisionError\<close>, whatever the dividend; otherwise
  the exact quotient, rounded.
\<close>

fun fdiv :: "pyfloat \<Rightarrow> pyfloat \<Rightarrow> py_exc + pyfloat" where
  "fdiv x (Fin y) =
     (if y = 0 then Inl ZeroDivisionError
      else Inr (case x of
                  Fin a \<Rightarrow> round_to_double (a / y)
                | PosInf \<Rightarrow> (if 0 < y then PosInf else NegInf)
                | NegInf \<Rightarrow> (if 0 < y then NegInf else PosInf)
                | NaN \<Rightarrow> NaN))"
| "fdiv NaN y = Inr NaN"
| "fdiv x NaN = Inr NaN"
| "fdiv (Fin a) y = Inr (Fin 0)"
| "fdiv x y = Inr NaN"

section \<open>JSON values\<close>

text \<open>
  What \<open>json.load\<close> returns. Python's \<open>None\<close> is \<open>JNull\<close>; a \<open>dict\<close> is the list of
  its items. A number written with a fraction or an exponent is a \<open>float\<close>, \<open>JNum\<close> of
  the number written (\<open>json.dump\<close> writes every finite float so); a number written with
  digits only is an \<open>int\<close>, \<open>JInt\<close>. Of the three constants that \<open>json.load\<close> and
  \<open>json.dump\<close> know besides, \<open>NaN\<close> is \<open>JNaN\<close>, and \<open>Infinity\<close> and \<open>-Infinity\<close>
  are \<open>JNum\<close> of a number beyond the doubles on their side, as for an exponent too
  large.
\<close>

datatype json =
    JNull
  | JBool bool
  | JNum real
  | JInt int
  | JNaN
  | JStr string
  | JArr "json list"
  | JObj "(string \<times> json) list"

type_synonym pydict = "(string \<times> json) list"

text \<open>\<open>d.get(k)\<close>: the value stored under \<open>k\<close>, \<open>None\<close> when the key is missing.\<close>

definition dict_get :: "pydict \<Rightarrow> string \<Rightarrow> json" where
  "dict_get d k = (case map_of d k of None \<Rightarrow> JNull | Some v \<Rightarrow> v)"

text \<open>Truth value of an object, as \<open>if x\<close>, \<open>not x\<close> and \<open>x or y\<close> test it.\<close>

fun truthy :: "json \<Rightarrow> bool" where
  "truthy JNull = False"
| "truthy (JBool b) = b"
| "truthy (JNum x) = float_truthy (as_float x)"
| "truthy (JInt n) = (n \<noteq> 0)"
| "truthy JNaN = True"
| "truthy (JStr s) = (s \<noteq> [])"
| "truthy (JArr xs) = (xs \<noteq> [])"
| "truthy (JObj kvs) = (kvs \<noteq> [])"

text \<open>
  \<open>x / y\<close> for a float \<open>x\<close>: a zero divisor raises \<open>ZeroDivisionError\<close>, a divisor that
  is not a number raises \<open>TypeError\<close>, and \<open>bool\<close> is a subclass of \<open>int\<close>. An \<open>int\<close>
  divisor is first converted to the nearest float, which raises \<open>OverflowError\<close> when
  the \<open>int\<close> is beyond the doubles.
\<close>

fun truediv :: "real \<Rightarrow> json \<Rightarrow> py_exc + pyfloat" where
  "truediv x (JNum y) = fdiv (as_float x) (as_float y)"
| "truediv x (JInt n) =
     (case round_to_double (real_of_int n) of
        Fin y \<Rightarrow> fdiv (as_float x) (Fin y)
      | _ \<Rightarrow> Inl OverflowError)"
| "truediv x JNaN = fdiv (as_float x) NaN"
| "truediv x (JBool b) = (if b then Inr (as_float x) else Inl ZeroDivisionError)"
| "truediv x v = Inl TypeError"

section \<open>Display and invoicing rounding (utils/formatters.py)\<close>

text \<open>
  \<open>str(x)\<close> of a finite float, as a number: the decimal with the fewest significant
  digits that \<open>float\<close> reads back as \<open>x\<close>, and the nearest to \<open>x\<close> when there are
  two. With \<open>n\<close> significant digits the candidates are the two neighbours of \<open>x\<close> among
  the multiples of \<open>10^(k-n+1)\<close>, where \<open>10^k \<le> x < 10^(k+1)\<close>; seventeen digits always
  suffice.
\<close>

definition digits_candidate :: "nat \<Rightarrow> real \<Rightarrow> real option" where
  "digits_candidate n x =
     (let s = pow10 (ilog10 x - int n + 1);
          k = \<lfloor>x / s\<rfloor>;
          lo = real_of_int k * s;
          hi = lo + s;
          lo_ok = (round_to_double lo = Fin x);
          hi_ok = (round_to_double hi = Fin x)
      in if lo_ok \<and> hi_ok then
           Some (if x - lo < hi - x then lo else if hi - x < x - lo then hi
                 else if even k then lo else hi)
         else if lo_ok then Some lo
         else if hi_ok then Some hi
         else None)"

fun shortest_digits :: "nat \<Rightarrow> nat \<Rightarrow> real \<Rightarrow> real" where
  "shortest_digits 0 n x = x"
| "shortest_digits (Suc fuel) n x =
     (case digits_candidate n x of
        Some c \<Rightarrow> c
      | None \<Rightarrow> shortest_digits fuel (Suc n) x)"

definition repr_decimal :: "real \<Rightarrow> real" where
  "repr_decimal x =
     (if x = 0 then 0
      else if 0 < x then shortest_digits 17 1 x
      else - shortest_digits 17 1 (- x))"

text \<open>
  The two rounding rules of \<open>Decimal.quantize\<close> that the bot uses: \<open>ROUND_DOWN\<close> drops
  the digits beyond the target exponent (rounding toward zero); \<open>ROUND_HALF_UP\<close> rounds
  to the nearest value, a tie going away from zero.
\<close>

definition round_down :: "real \<Rightarrow> int" where
  "round_down x = (if 0 \<le> x then \<lfloor>x\<rfloor> else \<lceil>x\<rceil>)"

definition half_up :: "real \<Rightarrow> int" where
  "half_up x = (if 0 \<le> x then \<lfloor>x + 1 / 2\<rfloor> else \<lceil>x - 1 / 2\<rceil>)"

text \<open>
  \<open>trunc2(x)\<close>: \<open>Decimal(str(x)).quantize(Decimal("0.00"), rounding=ROUND_DOWN)\<close>, back to
  float, with negative zero normalised to zero. Under the default context of 28
  digits \<open>quantize\<close> raises \<open>InvalidOperation\<close> when the result would have more than 28
  digits, and for an infinity; it passes NaN on.
\<close>

fun trunc2 :: "pyfloat \<Rightarrow> py_exc + pyfloat" where
  "trunc2 (Fin x) =
     (let d = round_down (repr_decimal x * 100) in
      if 10 ^ 28 \<le> \<bar>d\<bar> then Inl InvalidOperation
      else
        (let val = round_to_double (real_of_int d / 100)
         in Inr (if val = Fin 0 then Fin 0 else val)))"
| "trunc2 NaN = Inr NaN"
| "trunc2 x = Inl InvalidOperation"

text \<open>
  The invoicing integer:
  \<open>int(Decimal(str(x)).quantize(Decimal("1"), rounding=ROUND_HALF_UP))\<close>. \<open>int\<close> of the
  NaN that \<open>quantize\<close> passes on raises \<open>ValueError\<close>.
\<close>

fun round_half_up :: "pyfloat \<Rightarrow> py_exc + int" where
  "round_half_up (Fin x) =
     (let n = half_up (repr_decimal x) in
      if 10 ^ 28 \<le> \<bar>n\<bar> then Inl InvalidOperation else Inr n)"
| "round_half_up NaN = Inl ValueError"
| "round_half_up x = Inl InvalidOperation"

section \<open>Timestamps\<close>

text \<open>
  A \<open>datetime\<close> object: the calendar fields and, for an aware object, the offset of its
  time zone from UTC in minutes (\<open>None\<close> for a naive object).
\<close>

record datetime =
  year :: nat
  month :: nat
  day :: nat
  hour :: nat
  minute :: nat
  second :: nat
  microsecond :: nat
  utcoffset :: "int option"

definition is_leap :: "nat \<Rightarrow> bool" where
  "is_leap y = (if y mod 100 = 0 then y mod 400 = 0 else y mod 4 = 0)"

definition days_in_month :: "nat \<Rightarrow> nat \<Rightarrow> nat" where
  "days_in_month y m =
     (if m = 2 then (if is_leap y then 29 else 28)
      else if m = 4 \<or> m = 6 \<or> m = 9 \<or> m = 11 then 30 else 31)"

definition valid_date :: "nat \<Rightarrow> nat \<Rightarrow> nat \<Rightarrow> bool" where
  "valid_date y m d =
     (1 \<le> y \<and> y \<le> 9999 \<and> 1 \<le> m \<and> m \<le> 12 \<and> 1 \<le> d \<and> d \<le> days_in_month y m)"

definition valid_time :: "nat \<Rightarrow> nat \<Rightarrow> nat \<Rightarrow> nat \<Rightarrow> bool" where
  "valid_time h mi s us = (h < 24 \<and> mi < 60 \<and> s < 60 \<and> us < 1000000)"

text \<open>The class invariant of \<open>datetime\<close>: every constructor enforces these ranges.\<close>

definition valid_datetime :: "datetime \<Rightarrow> bool" where
  "valid_datetime t =
     (valid_date (year t) (month t) (day t) \<and>
      valid_time (hour t) (minute t) (second t) (microsecond t))"

subsection \<open>Writing: \<open>datetime.isoformat()\<close>\<close>

definition digit_char :: "nat \<Rightarrow> char" where
  "digit_char d = char_of (48 + d)"

definition pad2 :: "nat \<Rightarrow> string" where
  "pad2 n = [digit_char (n div 10 mod 10), digit_char (n mod 10)]"

definition pad4 :: "nat \<Rightarrow> string" where
  "pad4 n = pad2 (n div 100) @ pad2 (n mod 100)"

definition pad6 :: "nat \<Rightarrow> string" where
  "pad6 n = pad2 (n div 10000) @ pad4 (n mod 10000)"

definition offset_str :: "int option \<Rightarrow> string" where
  "offset_str off =
     (case off of
        None \<Rightarrow> []
      | Some m \<Rightarrow>
          (if m < 0 then ''-'' else ''+'') @
          pad2 (nat \<bar>m\<bar> div 60) @ '':'' @ pad2 (nat \<bar>m\<bar> mod 60))"

text \<open>
  \<open>YYYY-MM-DDTHH:MM:SS\<close>, then \<open>.ffffff\<close> when the microseconds are not zero, then the
  offset \<open>+HH:MM\<close> of an aware object.
\<close>

definition isoformat :: "datetime \<Rightarrow> string" where
  "isoformat t =
     pad4 (year t) @ ''-'' @ pad2 (month t) @ ''-'' @ pad2 (day t) @ ''T'' @
     pad2 (hour t) @ '':'' @ pad2 (minute t) @ '':'' @ pad2 (second t) @
     (if microsecond t = 0 then [] else ''.'' @ pad6 (microsecond t)) @
     offset_str (utcoffset t)"

subsection \<open>Reading: \<open>datetime.fromisoformat()\<close>\<close>

text \<open>
  The reader for the layouts that \<open>isoformat\<close> writes: a date, alone or followed by
  one separator character, a time \<open>HH:MM:SS\<close> with an optional fraction of three or six
  digits, and an optional offset \<open>+HH:MM\<close> or \<open>-HH:MM\<close>. \<open>None\<close> stands for the
  \<open>ValueError\<close> of the library. The library reads further layouts (a time without
  seconds, and from Python 3.11 on most of ISO 8601); nothing below depends on a string
  being refused.
\<close>

definition digit_val :: "char \<Rightarrow> nat option" where
  "digit_val c =
     (let n = (of_char c :: nat) in if 48 \<le> n \<and> n \<le> 57 then Some (n - 48) else None)"

fun digits_val :: "nat \<Rightarrow> string \<Rightarrow> nat option" where
  "digits_val acc [] = Some acc"
| "digits_val acc (c # cs) =
     (case digit_val c of None \<Rightarrow> None | Some d \<Rightarrow> digits_val (10 * acc + d) cs)"

definition parse_nat :: "nat \<Rightarrow> string \<Rightarrow> nat option" where
  "parse_nat k s = (if length s = k then digits_val 0 s else None)"

definition parse_date :: "string \<Rightarrow> (nat \<times> nat \<times> nat) option" where
  "parse_date s =
     (if length s = 10 \<and> s ! 4 = CHR ''-'' \<and> s ! 7 = CHR ''-'' then
        (case (parse_nat 4 (take 4 s), parse_nat 2 (take 2 (drop 5 s)), parse_nat 2 (drop 8 s)) of
           (Some y, Some m, Some d) \<Rightarrow> if valid_date y m d then Some (y, m, d) else None
         | _ \<Rightarrow> None)
      else None)"

definition parse_fraction :: "string \<Rightarrow> nat option" where
  "parse_fraction s =
     (if s = [] then Some 0
      else if length s = 7 \<and> hd s = CHR ''.'' then parse_nat 6 (tl s)
      else if length s = 4 \<and> hd s = CHR ''.'' then map_option (\<lambda>ms. ms * 1000) (parse_nat 3 (tl s))
      else None)"

definition parse_time :: "string \<Rightarrow> (nat \<times> nat \<times> nat \<times> nat) option" where
  "parse_time s =
     (if 8 \<le> length s \<and> s ! 2 = CHR '':'' \<and> s ! 5 = CHR '':'' then
        (case (parse_nat 2 (take 2 s), parse_nat 2 (take 2 (drop 3 s)),
               parse_nat 2 (take 2 (drop 6 s)), parse_fraction (drop 8 s)) of
           (Some h, Some mi, Some se, Some us) \<Rightarrow>
             if valid_time h mi se us then Some (h, mi, se, us) else None
         | _ \<Rightarrow> None)
      else None)"

definition parse_offset :: "string \<Rightarrow> int option" where
  "parse_offset s =
     (if length s = 6 \<and> (hd s = CHR ''+'' \<or> hd s = CHR ''-'') \<and> s ! 3 = CHR '':'' then
        (case (parse_nat 2 (take 2 (drop 1 s)), parse_nat 2 (drop 4 s)) of
           (Some h, Some m) \<Rightarrow>
             if h < 24 \<and> m < 60
             then Some ((if hd s = CHR ''-'' then - 1 else 1) * int (60 * h + m))
             else None
         | _ \<Rightarrow> None)
      else None)"

definition is_sign :: "char \<Rightarrow> bool" where
  "is_sign c = (c = CHR ''+'' \<or> c = CHR ''-'')"

definition fromisoformat :: "string \<Rightarrow> datetime option" where
  "fromisoformat s =
     (case parse_date (take 10 s) of
        None \<Rightarrow> None
      | Some (y, m, d) \<Rightarrow>
          (let rest = drop 10 s in
           if rest = [] then
             Some \<lparr>year = y, month = m, day = d, hour = 0, minute = 0, second = 0,
                   microsecond = 0, utcoffset = None\<rparr>
           else
             (let tstr = tl rest;
                  timestr = takeWhile (\<lambda>c. \<not> is_sign c) tstr;
                  tzstr = dropWhile (\<lambda>c. \<not> is_sign c) tstr
              in case parse_time timestr of
                   None \<Rightarrow> None
                 | Some (h, mi, se, us) \<Rightarrow>
                     if tzstr = [] then
                       Some \<lparr>year = y, month = m, day = d, hour = h, minute = mi,
                             second = se, microsecond = us, utcoffset = None\<rparr>
                     else
                       (case parse_offset tzstr of
                          None \<Rightarrow> None
                        | Some off \<Rightarrow>
                            Some \<lparr>year = y, month = m, day = d, hour = h, minute = mi,
                                  second = se, microsecond = us, utcoffset = Some off\<rparr>))))"

subsection \<open>\<open>format_datetime\<close> (utils/formatters.py)\<close>

definition is_space :: "char \<Rightarrow> bool" where
  "is_space c = (c = CHR '' '' \<or> (9 \<le> (of_char c :: nat) \<and> (of_char c :: nat) \<le> 13)
                 \<or> (28 \<le> (of_char c :: nat) \<and> (of_char c :: nat) \<le> 31))"

definition strip :: "string \<Rightarrow> string" where
  "strip s = rev (dropWhile is_space (rev (dropWhile is_space s)))"

text \<open>
  The string shown to the user: the default \<open>unknown date\<close>, or the parsed moment, which
  \<open>strftime\<close> renders in the server's time zone.
\<close>

datatype shown_time = UnknownDate | ShownAt datetime

text \<open>
  An empty or missing value gives the default. Any exception inside the \<open>try\<close> gives
  the default as well: \<open>strip\<close> on a value that is not a string (\<open>AttributeError\<close>) and
  a string that \<open>fromisoformat\<close> refuses. A trailing \<open>Z\<close> is read as \<open>+00:00\<close>.
\<close>

definition format_datetime :: "json \<Rightarrow> shown_time" where
  "format_datetime dt_str =
     (if \<not> truthy dt_str then UnknownDate
      else
        (case dt_str of
           JStr str \<Rightarrow>
             (let s = strip str;
                  s = (if s \<noteq> [] \<and> last s = CHR ''Z'' then butlast s @ ''+00:00'' else s)
              in case fromisoformat s of
                   None \<Rightarrow> UnknownDate
                 | Some dt \<Rightarrow> ShownAt dt)
         | _ \<Rightarrow> UnknownDate))"

section \<open>The rate cache (database/repositories/cache_repo.py)\<close>

text \<open>
  The state of the cache file, by what reading it does: the path does not exist; the
  directory cannot be searched, so that \<open>Path.exists\<close> raises \<open>PermissionError\<close> (in
  the Python versions in which \<open>exists\<close> lets it through, 3.11 among them); \<open>open\<close> or
  \<open>read\<close> raises \<open>OSError\<close>; the bytes are not UTF-8, so that reading the text-mode
  file opened with \<open>encoding='utf-8'\<close> raises \<open>UnicodeDecodeError\<close>; the text is not a
  JSON document (an empty or truncated file is such a text), so that \<open>json.load\<close>
  raises \<open>JSONDecodeError\<close>; the text is nested deeper than the interpreter's
  recursion limit, so that \<open>json.load\<close> raises \<open>RecursionError\<close>; the text holds an
  integer of more than 4300 digits, so that \<open>json.load\<close> raises a plain
  \<open>ValueError\<close>; or the file holds a JSON document that \<open>json.load\<close> returns.
\<close>

datatype cache_file =
    Absent
  | Inaccessible
  | Unreadable
  | Undecodable
  | Malformed
  | TooDeep
  | HugeInteger
  | Document json

text \<open>\<open>self.cache_path.exists()\<close>, which is called outside the \<open>try\<close>.\<close>

fun path_exists :: "cache_file \<Rightarrow> py_exc + bool" where
  "path_exists Absent = Inr False"
| "path_exists Inaccessible = Inl PermissionError"
| "path_exists f = Inr True"

text \<open>\<open>with open(path, 'r', encoding='utf-8') as f: json.load(f)\<close>\<close>

fun open_json_load :: "cache_file \<Rightarrow> py_exc + json" where
  "open_json_load Absent = Inl IOError"
| "open_json_load Inaccessible = Inl PermissionError"
| "open_json_load Unreadable = Inl IOError"
| "open_json_load Undecodable = Inl UnicodeDecodeError"
| "open_json_load Malformed = Inl JSONDecodeError"
| "open_json_load TooDeep = Inl RecursionError"
| "open_json_load HugeInteger = Inl ValueError"
| "open_json_load (Document v) = Inr v"

text \<open>\<open>data if isinstance(data, dict) else {}\<close>\<close>

fun dict_or_empty :: "json \<Rightarrow> pydict" where
  "dict_or_empty (JObj kvs) = kvs"
| "dict_or_empty v = []"

text \<open>
  \<open>CacheRepository.load\<close>: the empty dict when the file does not exist; otherwise the
  parsed dict, the empty dict for a document that is not a dict, and the empty dict
  when the exception raised is caught by \<open>except (json.JSONDecodeError, IOError)\<close>.
  Any other exception leaves the function, and so does an exception of \<open>exists\<close>.
\<close>

definition load :: "cache_file \<Rightarrow> py_exc + pydict" where
  "load f =
     (case path_exists f of
        Inl e \<Rightarrow> Inl e
      | Inr False \<Rightarrow> Inr []
      | Inr True \<Rightarrow>
          (case open_json_load f of
             Inr data \<Rightarrow> Inr (dict_or_empty data)
           | Inl e \<Rightarrow>
               if is_instance e JSONDecodeError \<or> is_instance e IOError then Inr []
               else Inl e))"

text \<open>
  What the write does: it completes; \<open>mkdir\<close> or \<open>open\<close> raises \<open>OSError\<close> and the file
  is as before; or \<open>open(path, 'w')\<close> has emptied the file and \<open>json.dump\<close> raises
  \<open>OSError\<close> part-way, which leaves a proper prefix of the document.
\<close>

datatype write_outcome = Written | NotOpened | Interrupted

text \<open>
  \<open>CacheRepository.save\<close>: the new file state and the returned flag. The \<open>IOError\<close> of
  a failed write is caught and becomes \<open>False\<close>. \<open>now\<close> is
  \<open>datetime.now(timezone.utc)\<close>.
\<close>

definition complete_record :: "real \<Rightarrow> datetime \<Rightarrow> json" where
  "complete_record rate now =
     JObj [(''rate'', JNum rate), (''updated_at'', JStr (isoformat now))]"

definition save :: "real \<Rightarrow> datetime \<Rightarrow> write_outcome \<Rightarrow> cache_file \<Rightarrow> cache_file \<times> bool" where
  "save rate now w f =
     (let data = complete_record rate now
      in case w of
           Written \<Rightarrow> (Document data, True)
         | NotOpened \<Rightarrow> (f, False)
         | Interrupted \<Rightarrow> (Malformed, False))"

section \<open>Conversion requests (handlers/message_handlers.py)\<close>

text \<open>
  The figures of the final reply. The reply prints the three amounts and the difference
  with two decimals, the invoicing integer, the Easystaff rate and the time of its last
  update.
\<close>

record conversion =
  eur_xe_show :: pyfloat
  eur_easy_show :: pyfloat
  percent_diff :: pyfloat
  used_value_show :: pyfloat
  rounded_to_use :: int
  easy_rate_shown :: json
  updated_time :: shown_time

text \<open>
  The replies of the handler, in the order of the source: the amount must be a positive
  number greater than zero; the minimum amount for conversion is 10,000 RUB; please use
  only the number; receiving the Easystaff rate, please wait; failed to get the
  Easystaff rate; received a zero/invalid rate; the conversion; and the reply of
  \<open>handle_error\<close>, an error occurred.
\<close>

datatype reply =
    NotPositive
  | BelowMinimum
  | OnlyNumber
  | ReceivingRate
  | FetchFailed
  | InvalidRate
  | ConversionReply conversion
  | ErrorOccurred py_exc

text \<open>The messages of the scheduler to the administrators, with the context string.\<close>

datatype notification =
    UpdateSuccess string real
  | InvalidRateReceived string "real option"
  | UpdateError string py_exc

text \<open>
  What a run does to the outside, in order: the statistics update, a reply to the
  requester, a call of either rate provider, a call of \<open>load\<close> or \<open>save\<close> of the cache,
  the alert that \<open>handle_error\<close> sends to the administrators, a message of
  \<open>notify_admins\<close>. Sending a Telegram message is taken to succeed.
\<close>

datatype event =
    StatsUpdate
  | Reply reply
  | XeFetch real
  | EasystaffFetch
  | CacheLoad
  | CacheSave real
  | AdminAlert py_exc
  | NotifyAdmins notification

text \<open>
  What the outside answers during one run: whether a statistics repository is configured
  and what its update raises; the value of \<open>float(message.text)\<close> or the exception it
  raises; the results of \<open>XeConverterService.get_rate\<close> and of
  \<open>EasystaffService.get_rate\<close>; what a write to the cache file does; and the clock.
\<close>

record env =
  stats_out :: "py_exc option option"
  text_float :: "py_exc + real"
  xe_out :: "py_exc + real option"
  easystaff_out :: "py_exc + real option"
  write_out :: write_outcome
  clock :: datetime

text \<open>\<open>handle_error\<close> (handlers/error_handler.py): alert the administrators, reply.\<close>

definition handle_error :: "py_exc \<Rightarrow> event list" where
  "handle_error error = [AdminAlert error, Reply (ErrorOccurred error)]"

text \<open>\<open>_update_user_stats\<close>: skipped without a repository; its own errors are handled.\<close>

definition update_user_stats :: "py_exc option option \<Rightarrow> event list" where
  "update_user_stats st =
     (case st of
        None \<Rightarrow> []
      | Some None \<Rightarrow> [StatsUpdate]
      | Some (Some e) \<Rightarrow> StatsUpdate # handle_error e)"

text \<open>
  Step 5 of the handler, in float arithmetic: the difference in percent and the
  recommended raw value. The division raises when the smaller value is zero.
\<close>

definition recommend :: "pyfloat \<Rightarrow> pyfloat \<Rightarrow> py_exc + pyfloat \<times> pyfloat" where
  "recommend eur_xe_raw eur_easy_raw =
     (let diff = fabs (fsub eur_xe_raw eur_easy_raw) in
      case fdiv diff (fmin eur_xe_raw eur_easy_raw) of
        Inl e \<Rightarrow> Inl e
      | Inr ratio \<Rightarrow>
          (let percent_diff = fmul ratio (Fin 100);
               used_value_raw = (if fle percent_diff (Fin 10) then fmax eur_xe_raw eur_easy_raw
                                 else fmin eur_xe_raw eur_easy_raw)
           in Inr (percent_diff, used_value_raw)))"

text \<open>
  Steps 6 and 7: the three display values, in the order of the source, and the
  invoicing integer, each of which may raise.
\<close>

definition present ::
  "pyfloat \<Rightarrow> pyfloat \<Rightarrow> pyfloat \<Rightarrow> py_exc + pyfloat \<times> pyfloat \<times> pyfloat \<times> int" where
  "present eur_xe_raw eur_easy_raw used_value_raw =
     (case trunc2 eur_xe_raw of
        Inl e \<Rightarrow> Inl e
      | Inr xe_show \<Rightarrow>
          (case trunc2 eur_easy_raw of
             Inl e \<Rightarrow> Inl e
           | Inr easy_show \<Rightarrow>
               (case trunc2 used_value_raw of
                  Inl e \<Rightarrow> Inl e
                | Inr used_show \<Rightarrow>
                    (case round_half_up used_value_raw of
                       Inl e \<Rightarrow> Inl e
                     | Inr rounded \<Rightarrow>
                         Inr (xe_show, easy_show, used_show, rounded)))))"

text \<open>
  From the Easystaff rate to the reply: the guarded division, the validation of both raw
  values, step 5, the truncated display values, the invoicing integer and the formatted
  time. \<open>Inl\<close> is an exception raised on the way.
\<close>

definition reconcile :: "real \<Rightarrow> real option \<Rightarrow> json \<Rightarrow> pydict \<Rightarrow> py_exc + reply" where
  "reconcile rub_amount eur_xe_raw easy_rate cache =
     (case (if truthy easy_rate then truediv rub_amount easy_rate else Inr (Fin 0)) of
        Inl e \<Rightarrow> Inl e
      | Inr eur_easy_raw \<Rightarrow>
          (case eur_xe_raw of
             None \<Rightarrow> Inr InvalidRate
           | Some xe \<Rightarrow>
               if \<not> float_truthy (as_float xe) \<or> fle (as_float xe) (Fin 0) \<or>
                  \<not> float_truthy eur_easy_raw \<or> fle eur_easy_raw (Fin 0)
               then Inr InvalidRate
               else
                 (case recommend (as_float xe) eur_easy_raw of
                    Inl e \<Rightarrow> Inl e
                  | Inr (pd, used_value_raw) \<Rightarrow>
                      (case present (as_float xe) eur_easy_raw used_value_raw of
                         Inl e \<Rightarrow> Inl e
                       | Inr (xe_show, easy_show, used_show, rounded) \<Rightarrow>
                           Inr (ConversionReply
                             \<lparr>eur_xe_show = xe_show,
                              eur_easy_show = easy_show,
                              percent_diff = pd,
                              used_value_show = used_show,
                              rounded_to_use = rounded,
                              easy_rate_shown = easy_rate,
                              updated_time =
                                format_datetime (dict_get cache ''updated_at'')\<rparr>)))))"

text \<open>
  The body of the \<open>try\<close>: the events, the cache file afterwards, and the exception that
  reaches \<open>except Exception\<close>, if any. The rate comes from the cache; when the cache has
  none, it is fetched, saved when it is not \<open>None\<close>, and the cache is read again.
\<close>

definition try_block :: "env \<Rightarrow> cache_file \<Rightarrow> real \<Rightarrow> event list \<times> cache_file \<times> py_exc option" where
  "try_block env f rub_amount =
     (case xe_out env of
        Inl e \<Rightarrow> ([XeFetch rub_amount], f, Some e)
      | Inr eur_xe_raw \<Rightarrow>
          (case load f of
             Inl e \<Rightarrow> ([XeFetch rub_amount, CacheLoad], f, Some e)
           | Inr cache \<Rightarrow>
               (let easy_rate = dict_get cache ''rate'' in
                if easy_rate = JNull then
                  (case easystaff_out env of
                     Inl e \<Rightarrow>
                       ([XeFetch rub_amount, CacheLoad, Reply ReceivingRate, EasystaffFetch],
                        f, Some e)
                   | Inr None \<Rightarrow>
                       ([XeFetch rub_amount, CacheLoad, Reply ReceivingRate, EasystaffFetch,
                         Reply FetchFailed], f, None)
                   | Inr (Some rate) \<Rightarrow>
                       (let (f', ok) = save rate (clock env) (write_out env) f;
                            evs = [XeFetch rub_amount, CacheLoad, Reply ReceivingRate,
                                   EasystaffFetch, CacheSave rate, CacheLoad]
                        in case load f' of
                             Inl e \<Rightarrow> (evs, f', Some e)
                           | Inr cache' \<Rightarrow>
                               (case reconcile rub_amount eur_xe_raw (JNum rate) cache' of
                                  Inl e \<Rightarrow> (evs, f', Some e)
                                | Inr rep \<Rightarrow> (evs @ [Reply rep], f', None))))
                else
                  (case reconcile rub_amount eur_xe_raw easy_rate cache of
                     Inl e \<Rightarrow> ([XeFetch rub_amount, CacheLoad], f, Some e)
                   | Inr rep \<Rightarrow> ([XeFetch rub_amount, CacheLoad, Reply rep], f, None)))))"

text \<open>
  \<open>MessageHandler.handle_conversion\<close>: the events, the cache file afterwards, and the
  exception that leaves the handler, if any. Only \<open>ValueError\<close> is caught around
  \<open>float(message.text)\<close>; every exception of the \<open>try\<close> body goes to \<open>handle_error\<close>.
\<close>

definition handle_conversion :: "env \<Rightarrow> cache_file \<Rightarrow> event list \<times> cache_file \<times> py_exc option" where
  "handle_conversion env f =
     (let stats_evs = update_user_stats (stats_out env) in
      case text_float env of
        Inl e \<Rightarrow>
          if is_instance e ValueError then (stats_evs @ [Reply OnlyNumber], f, None)
          else (stats_evs, f, Some e)
      | Inr rub_amount \<Rightarrow>
          if rub_amount \<le> 0 then (stats_evs @ [Reply NotPositive], f, None)
          else if rub_amount < 10000 then (stats_evs @ [Reply BelowMinimum], f, None)
          else
            (case try_block env f rub_amount of
               (evs, f', Some error) \<Rightarrow> (stats_evs @ evs @ handle_error error, f', None)
             | (evs, f', None) \<Rightarrow> (stats_evs @ evs, f', None)))"

section \<open>The periodic refresh (services/scheduler.py)\<close>

text \<open>
  \<open>Scheduler._update_rate\<close>: fetch the rate; save it and report success when
  \<open>rate and rate > 0\<close>; report an invalid rate otherwise; report the exception when the
  fetch raises. \<open>notify_admins\<close> catches its own exceptions, and the flag that \<open>save\<close>
  returns is not looked at.
\<close>

definition update_rate :: "string \<Rightarrow> env \<Rightarrow> cache_file \<Rightarrow> event list \<times> cache_file" where
  "update_rate context env f =
     (case easystaff_out env of
        Inl e \<Rightarrow> ([EasystaffFetch, NotifyAdmins (UpdateError context e)], f)
      | Inr None \<Rightarrow> ([EasystaffFetch, NotifyAdmins (InvalidRateReceived context None)], f)
      | Inr (Some rate) \<Rightarrow>
          if rate \<noteq> 0 \<and> rate > 0 then
            (let (f', ok) = save rate (clock env) (write_out env) f
             in ([EasystaffFetch, CacheSave rate, NotifyAdmins (UpdateSuccess context rate)], f'))
          else
            ([EasystaffFetch, NotifyAdmins (InvalidRateReceived context (Some rate))], f))"

subsection \<open>Refresh calls that overlap\<close>

text \<open>
  The event loop runs one coroutine at a time and changes to another one only where the
  running coroutine awaits. \<open>_update_rate\<close> awaits the fetch and, later, the
  notification; in between it tests the rate and calls \<open>save\<close>, which is an ordinary
  function and awaits nothing. To the other tasks a refresh call is therefore three
  sections, each of which runs alone: up to the fetch; from the fetched rate through
  the save up to the notification; and the rest. Only the second section touches the
  cache file. Each section is given by what it does to the file.
\<close>

definition refresh_sections :: "string \<Rightarrow> env \<Rightarrow> (cache_file \<Rightarrow> cache_file) list" where
  "refresh_sections context env =
     [\<lambda>f. f, \<lambda>f. snd (update_rate context env f), \<lambda>f. f]"

text \<open>
  A schedule of two overlapping calls is a list of their sections that keeps the order
  of each call: an element of \<open>shuffles\<close> of the two lists. A reader (\<open>load\<close>, which
  awaits nothing either) runs between two sections; \<open>file_states\<close> lists the states of
  the file that it can find: the state before each section, and the state at the end.
\<close>

fun file_states :: "(cache_file \<Rightarrow> cache_file) list \<Rightarrow> cache_file \<Rightarrow> cache_file list" where
  "file_states [] f = [f]"
| "file_states (s # ss) f = f # file_states ss (s f)"

section \<open>Connection bootstrap (main.py)\<close>

text \<open>
  \<open>connect_with_retries\<close>: the loop \<open>for attempt in range(1, retries + 1)\<close>.
  \<open>make_conn n\<close> is what the call of \<open>make_conn()\<close> in attempt \<open>n\<close> does and
  \<open>uniform n\<close> is the value that \<open>random.uniform(1.0, 1.4)\<close> draws after attempt \<open>n\<close>.
  The result is what the function returns or raises (it returns \<open>None\<close> when the range
  is empty), the delays it slept, in order, and the number of calls of \<open>make_conn\<close>.
\<close>

function retry_loop ::
  "(int \<Rightarrow> py_exc + 'c) \<Rightarrow> (int \<Rightarrow> real) \<Rightarrow> int \<Rightarrow> real \<Rightarrow> real \<Rightarrow> int
     \<Rightarrow> (py_exc + 'c option) \<times> real list \<times> nat" where
  "retry_loop make_conn uniform retries base cap attempt =
     (if attempt > retries then (Inr None, [], 0)
      else
        (case make_conn attempt of
           Inr c \<Rightarrow> (Inr (Some c), [], 1)
         | Inl e \<Rightarrow>
             if attempt = retries then (Inl e, [], 1)
             else
               (let delay = min cap (base * 2 ^ nat (attempt - 1)) * uniform attempt;
                    (r, sleeps, n) = retry_loop make_conn uniform retries base cap (attempt + 1)
                in (r, delay # sleeps, n + 1))))"
  by pat_completeness auto
termination
  by (relation "measure (\<lambda>(make_conn, uniform, retries, base, cap, attempt). nat (retries + 1 - attempt))") auto

definition connect_with_retries ::
  "(int \<Rightarrow> py_exc + 'c) \<Rightarrow> (int \<Rightarrow> real) \<Rightarrow> int \<Rightarrow> real \<Rightarrow> real
     \<Rightarrow> (py_exc + 'c option) \<times> real list \<times> nat" where
  "connect_with_retries make_conn uniform retries base cap =
     retry_loop make_conn uniform retries base cap 1"

section \<open>Reading a run\<close>

text \<open>The calls of a rate provider in a trace, and the rates that a trace saves.\<close>

fun is_provider_call :: "event \<Rightarrow> bool" where
  "is_provider_call (XeFetch x) = True"
| "is_provider_call EasystaffFetch = True"
| "is_provider_call ev = False"

definition provider_calls :: "event list \<Rightarrow> event list" where
  "provider_calls evs = filter is_provider_call evs"

fun saved_rates :: "event list \<Rightarrow> real list" where
  "saved_rates [] = []"
| "saved_rates (CacheSave r # evs) = r # saved_rates evs"
| "saved_rates (ev # evs) = saved_rates evs"

text \<open>The replies to the requester in a trace, and the messages to the administrators.\<close>

fun replies :: "event list \<Rightarrow> reply list" where
  "replies [] = []"
| "replies (Reply r # evs) = r # replies evs"
| "replies (ev # evs) = replies evs"

fun notifications :: "event list \<Rightarrow> notification list" where
  "notifications [] = []"
| "notifications (NotifyAdmins n # evs) = n # notifications evs"
| "notifications (ev # evs) = notifications evs"

fun is_failure_notice :: "notification \<Rightarrow> bool" where
  "is_failure_notice (UpdateSuccess c r) = False"
| "is_failure_notice (InvalidRateReceived c r) = True"
| "is_failure_notice (UpdateError c e) = True"

text \<open>The rate that the cache holds: the value under \<open>rate\<close> of the loaded record.\<close>

definition cached_rate :: "cache_file \<Rightarrow> py_exc + json" where
  "cached_rate f = (case load f of Inl e \<Rightarrow> Inl e | Inr cache \<Rightarrow> Inr (dict_get cache ''rate''))"

text \<open>The three parts of an \<open>isoformat\<close> string before the offset.\<close>

definition date_str :: "datetime \<Rightarrow> string" where
  "date_str t = pad4 (year t) @ ''-'' @ pad2 (month t) @ ''-'' @ pad2 (day t)"

definition hms_str :: "datetime \<Rightarrow> string" where
  "hms_str t = pad2 (hour t) @ '':'' @ pad2 (minute t) @ '':'' @ pad2 (second t)"

definition frac_str :: "datetime \<Rightarrow> string" where
  "frac_str t = (if microsecond t = 0 then [] else ''.'' @ pad6 (microsecond t))"

text \<open>The delay after the failed attempt \<open>n\<close> of the connection bootstrap.\<close>

definition backoff_delay :: "(int \<Rightarrow> real) \<Rightarrow> real \<Rightarrow> real \<Rightarrow> int \<Rightarrow> real" where
  "backoff_delay uniform base cap n = min cap (base * 2 ^ nat (n - 1)) * uniform n"

section \<open>Example runs\<close>

text \<open>A clock reading, 11 November 2025, 09:30:00.123456 UTC.\<close>

definition example_clock :: datetime where
  "example_clock =
     \<lparr>year = 2025, month = 11, day = 11, hour = 9, minute = 30, second = 0,
      microsecond = 123456, utcoffset = Some 0\<rparr>"

text \<open>
  A request for 10,000 RUB for which XE answers 120 EUR while the Easystaff page shows
  the rate \<open>0\<close>, which \<open>_parse_rate_text\<close> turns into \<open>0.0\<close>.
\<close>

definition zero_rate_env :: env where
  "zero_rate_env =
     \<lparr>stats_out = None, text_float = Inr 10000, xe_out = Inr (Some 120),
      easystaff_out = Inr (Some 0), write_out = Written, clock = example_clock\<rparr>"

text \<open>A request for 5,000 RUB, and a run in which Easystaff answers 85.5 RUB/EUR.\<close>

definition small_amount_env :: env where
  "small_amount_env =
     \<lparr>stats_out = Some None, text_float = Inr 5000, xe_out = Inr (Some 60),
      easystaff_out = Inr (Some 85.5), write_out = Written, clock = example_clock\<rparr>"

definition good_rate_env :: env where
  "good_rate_env =
     \<lparr>stats_out = None, text_float = Inr 10050, xe_out = Inr (Some 100),
      easystaff_out = Inr (Some 85.5), write_out = Written, clock = example_clock\<rparr>"

text \<open>A cache file that holds the rate 90 and no time.\<close>

definition old_cache :: cache_file where
  "old_cache = Document (JObj [(''rate'', JNum 90)])"

text \<open>
  A database that refuses three connections: the first two with \<open>OSError\<close>, the third
  with \<open>RuntimeError\<close>.
\<close>

definition failing_db :: "int \<Rightarrow> py_exc + unit" where
  "failing_db k = (if k = 3 then Inl RuntimeError else Inl IOError)"

text \<open>
  A refresh in which Easystaff answers 86 RUB/EUR a second later and the write of the
  cache file completes, and one in which \<open>json.dump\<close> raises \<open>OSError\<close> part-way (the
  disk is full, say).
\<close>

definition later_clock :: datetime where
  "later_clock =
     \<lparr>year = 2025, month = 11, day = 11, hour = 9, minute = 30, second = 1,
      microsecond = 0, utcoffset = Some 0\<rparr>"

definition later_rate_env :: env where
  "later_rate_env =
     \<lparr>stats_out = None, text_float = Inr 10050, xe_out = Inr (Some 100),
      easystaff_out = Inr (Some 86), write_out = Written, clock = later_clock\<rparr>"

definition interrupted_env :: env where
  "interrupted_env =
     \<lparr>stats_out = None, text_float = Inr 10050, xe_out = Inr (Some 100),
      easystaff_out = Inr (Some 86), write_out = Interrupted, clock = later_clock\<rparr>"

text \<open>
  The message \<open>1e30\<close>, for which XE answers \<open>1.1e28\<close> EUR.
\<close>

definition huge_amount_env :: env where
  "huge_amount_env =
     \<lparr>stats_out = None, text_float = Inr 1000000000000000000000000000000,
      xe_out = Inr (Some 11000000000000000000000000000),
      easystaff_out = Inr (Some 85.5), write_out = Written, clock = example_clock\<rparr>"

section \<open>Floats: evaluating a rounding\<close>

text \<open>
  The double nearest to \<open>x\<close>, from the binary exponent \<open>k\<close> of \<open>x\<close>, the exponent
  \<open>e\<close> of the last place and the significand \<open>m\<close>.
\<close>

lemma round_to_double_pos:
  assumes "0 < x" and "ilog2 x = k" and "max (k - 52) (- 1074) = e"
    and "round_half_even (x / pow2 e) = m" and "real_of_int m * pow2 e = y"
    and "y < 2 ^ 1024"
  shows "round_to_double x = Fin y"
  using assms by (simp add: round_to_double_def Let_def)

lemma round_to_double_neg:
  assumes "x < 0" and "ilog2 (- x) = k" and "max (k - 52) (- 1074) = e"
    and "round_half_even (- x / pow2 e) = m" and "real_of_int m * pow2 e = y"
    and "y < 2 ^ 1024"
  shows "round_to_double x = Fin (- y)"
  using assms by (simp add: round_to_double_def Let_def)

lemma as_float_zero: "as_float 0 = Fin 0"
  by (simp add: as_float_def round_to_double_def)

lemmas rd_eval = ilog2_def pow2_def round_half_even_def Let_def

lemma shortest_digits_step:
  "0 < fuel \<Longrightarrow>
     shortest_digits fuel n x =
       (case digits_candidate n x of
          Some c \<Rightarrow> c
        | None \<Rightarrow> shortest_digits (fuel - 1) (n + 1) x)"
  by (cases fuel) (auto split: option.splits)

lemmas repr_eval = repr_decimal_def shortest_digits_step digits_candidate_def ilog10_def
  pow10_def Let_def

lemmas float_eval = as_float_def fmin_def fmax_def round_down_def half_up_def Let_def

text \<open>Rounding is symmetric about zero.\<close>

lemma round_to_double_uminus:
  "round_to_double (- x) =
     (case round_to_double x of
        Fin y \<Rightarrow> Fin (- y) | PosInf \<Rightarrow> NegInf | NegInf \<Rightarrow> PosInf | NaN \<Rightarrow> NaN)"
  by (simp add: round_to_double_def Let_def)

text \<open>
  The decimal that \<open>str\<close> prints reads back as the float: every candidate that
  \<open>digits_candidate\<close> accepts rounds to \<open>x\<close>, and when seventeen digits have not
  sufficed the result is \<open>x\<close> itself.
\<close>

lemma digits_candidate_reads_back:
  "digits_candidate n x = Some c \<Longrightarrow> round_to_double c = Fin x"
  by (simp add: digits_candidate_def Let_def split: if_splits)

lemma shortest_digits_reads_back:
  "shortest_digits fuel n x = x \<or> round_to_double (shortest_digits fuel n x) = Fin x"
proof (induction fuel arbitrary: n)
  case 0
  show ?case
    by simp
next
  case (Suc fuel)
  show ?case
  proof (cases "digits_candidate n x")
    case None
    then show ?thesis
      using Suc [of "Suc n"] by simp
  next
    case (Some c)
    then show ?thesis
      using digits_candidate_reads_back [OF Some] by simp
  qed
qed

lemma repr_decimal_reads_back:
  "repr_decimal x = x \<or> round_to_double (repr_decimal x) = Fin x"
proof (cases "0 \<le> x")
  case True
  then show ?thesis
    using shortest_digits_reads_back [of 17 1 x] by (auto simp add: repr_decimal_def)
next
  case False
  then have r: "repr_decimal x = - shortest_digits 17 1 (- x)"
    by (simp add: repr_decimal_def)
  from shortest_digits_reads_back [of 17 1 "- x"] show ?thesis
  proof
    assume "shortest_digits 17 1 (- x) = - x"
    then show ?thesis
      by (simp add: r)
  next
    assume "round_to_double (shortest_digits 17 1 (- x)) = Fin (- x)"
    then show ?thesis
      by (simp add: r round_to_double_uminus)
  qed
qed

section \<open>The roundings of the examples\<close>

text \<open>
  Each of the following facts gives the double nearest to a number that an example
  below rounds, with the exponent and the significand that prove it.
\<close>

lemma rd_1: "round_to_double 100 = Fin 100"
  by (rule round_to_double_pos [where k = 6 and e = "- 46" and m = 7036874417766400])
     (simp_all add: rd_eval)

lemma rd_2: "round_to_double 10500 = Fin 10500"
  by (rule round_to_double_pos [where k = 13 and e = "- 39" and m = 5772436045824000])
     (simp_all add: rd_eval)

lemma rd_3: "round_to_double 105 = Fin 105"
  by (rule round_to_double_pos [where k = 6 and e = "- 46" and m = 7388718138654720])
     (simp_all add: rd_eval)

lemma rd_4: "round_to_double (- 5) = Fin (- 5)"
  by (rule round_to_double_neg [where k = 2 and e = "- 50" and m = 5629499534213120])
     (simp_all add: rd_eval)

lemma rd_5: "round_to_double (1 / 20) = Fin (3602879701896397 / 72057594037927936)"
  by (rule round_to_double_pos [where k = "- 5" and e = "- 57" and m = 7205759403792794])
     (simp_all add: rd_eval)

lemma rd_6: "round_to_double (90071992547409925 / 18014398509481984) = Fin 5"
  by (rule round_to_double_pos [where k = 2 and e = "- 50" and m = 5629499534213120])
     (simp_all add: rd_eval)

lemma rd_7: "round_to_double 200 = Fin 200"
  by (rule round_to_double_pos [where k = 7 and e = "- 45" and m = 7036874417766400])
     (simp_all add: rd_eval)

lemma rd_8: "round_to_double 110 = Fin 110"
  by (rule round_to_double_pos [where k = 6 and e = "- 46" and m = 7740561859543040])
     (simp_all add: rd_eval)

lemma rd_9: "round_to_double 106 = Fin 106"
  by (rule round_to_double_pos [where k = 6 and e = "- 46" and m = 7459086882832384])
     (simp_all add: rd_eval)

lemma rd_10: "round_to_double 130 = Fin 130"
  by (rule round_to_double_pos [where k = 7 and e = "- 45" and m = 4573968371548160])
     (simp_all add: rd_eval)

lemma rd_11: "round_to_double (- 30) = Fin (- 30)"
  by (rule round_to_double_neg [where k = 4 and e = "- 48" and m = 8444249301319680])
     (simp_all add: rd_eval)

lemma rd_12: "round_to_double (3 / 10) = Fin (5404319552844595 / 18014398509481984)"
  by (rule round_to_double_pos [where k = "- 2" and e = "- 54" and m = 5404319552844595])
     (simp_all add: rd_eval)

lemma rd_13: "round_to_double (135107988821114875 / 4503599627370496) = Fin 30"
  by (rule round_to_double_pos [where k = 4 and e = "- 48" and m = 8444249301319680])
     (simp_all add: rd_eval)

lemma rd_14: "round_to_double 10010 = Fin 10010"
  by (rule round_to_double_pos [where k = 13 and e = "- 39" and m = 5503055697018880])
     (simp_all add: rd_eval)

lemma rd_15: "round_to_double (1001 / 10) = Fin (3521955646092083 / 35184372088832)"
  by (rule round_to_double_pos [where k = 6 and e = "- 46" and m = 7043911292184166])
     (simp_all add: rd_eval)

lemma rd_16: "round_to_double (11011 / 100) = Fin (7748302421402583 / 70368744177664)"
  by (rule round_to_double_pos [where k = 6 and e = "- 46" and m = 7748302421402583])
     (simp_all add: rd_eval)

lemma rd_17: "round_to_double (704391129218417 / 70368744177664) = Fin (704391129218417 / 70368744177664)"
  by (rule round_to_double_pos [where k = 3 and e = "- 49" and m = 5635129033747336])
     (simp_all add: rd_eval)

lemma rd_18: "round_to_double (704391129218417 / 7043911292184166) = Fin (3602879701896399 / 36028797018963968)"
  by (rule round_to_double_pos [where k = "- 4" and e = "- 56" and m = 7205759403792798])
     (simp_all add: rd_eval)

lemma rd_19: "round_to_double (90071992547409975 / 9007199254740992) = Fin (5629499534213123 / 562949953421312)"
  by (rule round_to_double_pos [where k = 3 and e = "- 49" and m = 5629499534213123])
     (simp_all add: rd_eval)

lemma rd_20: "round_to_double 120 = Fin 120"
  by (rule round_to_double_pos [where k = 6 and e = "- 46" and m = 8444249301319680])
     (simp_all add: rd_eval)

lemma rd_21: "round_to_double 111 = Fin 111"
  by (rule round_to_double_pos [where k = 6 and e = "- 46" and m = 7810930603720704])
     (simp_all add: rd_eval)

lemma rd_22: "round_to_double (1101 / 10) = Fin (3873799366980403 / 35184372088832)"
  by (rule round_to_double_pos [where k = 6 and e = "- 46" and m = 7747598733960806])
     (simp_all add: rd_eval)

lemma rd_23: "round_to_double (551 / 5) = Fin (7754635608378573 / 70368744177664)"
  by (rule round_to_double_pos [where k = 6 and e = "- 46" and m = 7754635608378573])
     (simp_all add: rd_eval)

lemma rd_24: "round_to_double 101 = Fin 101"
  by (rule round_to_double_pos [where k = 6 and e = "- 46" and m = 7107243161944064])
     (simp_all add: rd_eval)

lemma rd_25: "round_to_double (432509 / 200) = Fin (1188871686544425 / 549755813888)"
  by (rule round_to_double_pos [where k = 11 and e = "- 41" and m = 4755486746177700])
     (simp_all add: rd_eval)

lemma rd_26: "round_to_double (39319 / 20) = Fin (8646339538504909 / 4398046511104)"
  by (rule round_to_double_pos [where k = 10 and e = "- 42" and m = 8646339538504909])
     (simp_all add: rd_eval)

lemma rd_27: "round_to_double (864633953850491 / 4398046511104) = Fin (864633953850491 / 4398046511104)"
  by (rule round_to_double_pos [where k = 7 and e = "- 45" and m = 6917071630803928])
     (simp_all add: rd_eval)

lemma rd_28: "round_to_double (864633953850491 / 8646339538504909) = Fin (3602879701896397 / 36028797018963968)"
  by (rule round_to_double_pos [where k = "- 4" and e = "- 56" and m = 7205759403792794])
     (simp_all add: rd_eval)

lemma rd_29: "round_to_double (90071992547409925 / 9007199254740992) = Fin 10"
  by (rule round_to_double_pos [where k = 3 and e = "- 49" and m = 5629499534213120])
     (simp_all add: rd_eval)

lemma rd_30: "round_to_double (268491 / 200) = Fin (738022441133015 / 549755813888)"
  by (rule round_to_double_pos [where k = 10 and e = "- 42" and m = 5904179529064120])
     (simp_all add: rd_eval)

lemma rd_31: "round_to_double 1000 = Fin 1000"
  by (rule round_to_double_pos [where k = 9 and e = "- 43" and m = 8796093022208000])
     (simp_all add: rd_eval)

lemma rd_32: "round_to_double 2000 = Fin 2000"
  by (rule round_to_double_pos [where k = 10 and e = "- 42" and m = 8796093022208000])
     (simp_all add: rd_eval)

lemma rd_33: "round_to_double 1300 = Fin 1300"
  by (rule round_to_double_pos [where k = 10 and e = "- 42" and m = 5717460464435200])
     (simp_all add: rd_eval)

lemma rd_34: "round_to_double 1400 = Fin 1400"
  by (rule round_to_double_pos [where k = 10 and e = "- 42" and m = 6157265115545600])
     (simp_all add: rd_eval)

lemma rd_35: "round_to_double 1340 = Fin 1340"
  by (rule round_to_double_pos [where k = 10 and e = "- 42" and m = 5893382324879360])
     (simp_all add: rd_eval)

lemma rd_36: "round_to_double 1350 = Fin 1350"
  by (rule round_to_double_pos [where k = 10 and e = "- 42" and m = 5937362789990400])
     (simp_all add: rd_eval)

lemma rd_37: "round_to_double 1342 = Fin 1342"
  by (rule round_to_double_pos [where k = 10 and e = "- 42" and m = 5902178417901568])
     (simp_all add: rd_eval)

lemma rd_38: "round_to_double 1343 = Fin 1343"
  by (rule round_to_double_pos [where k = 10 and e = "- 42" and m = 5906576464412672])
     (simp_all add: rd_eval)

lemma rd_39: "round_to_double (6712 / 5) = Fin (2951968818253005 / 2199023255552)"
  by (rule round_to_double_pos [where k = 10 and e = "- 42" and m = 5903937636506010])
     (simp_all add: rd_eval)

lemma rd_40: "round_to_double (2685 / 2) = Fin (2685 / 2)"
  by (rule round_to_double_pos [where k = 10 and e = "- 42" and m = 5904377441157120])
     (simp_all add: rd_eval)

lemma rd_41: "round_to_double (26849 / 20) = Fin (5904157538831565 / 4398046511104)"
  by (rule round_to_double_pos [where k = 10 and e = "- 42" and m = 5904157538831565])
     (simp_all add: rd_eval)

lemma rd_42: "round_to_double (67123 / 50) = Fin (1476050379824169 / 1099511627776)"
  by (rule round_to_double_pos [where k = 10 and e = "- 42" and m = 5904201519296676])
     (simp_all add: rd_eval)

lemma rd_43: "round_to_double (671227 / 500) = Fin (5904175131017609 / 4398046511104)"
  by (rule round_to_double_pos [where k = 10 and e = "- 42" and m = 5904175131017609])
     (simp_all add: rd_eval)

lemma rd_44: "round_to_double (10999 / 1000) = Fin (6191886537681011 / 562949953421312)"
  by (rule round_to_double_pos [where k = 3 and e = "- 49" and m = 6191886537681011])
     (simp_all add: rd_eval)

lemma rd_45: "round_to_double 10 = Fin 10"
  by (rule round_to_double_pos [where k = 3 and e = "- 49" and m = 5629499534213120])
     (simp_all add: rd_eval)

lemma rd_46: "round_to_double 20 = Fin 20"
  by (rule round_to_double_pos [where k = 4 and e = "- 48" and m = 5629499534213120])
     (simp_all add: rd_eval)

lemma rd_47: "round_to_double 11 = Fin 11"
  by (rule round_to_double_pos [where k = 3 and e = "- 49" and m = 6192449487634432])
     (simp_all add: rd_eval)

lemma rd_48: "round_to_double (109 / 10) = Fin (6136154492292301 / 562949953421312)"
  by (rule round_to_double_pos [where k = 3 and e = "- 49" and m = 6136154492292301])
     (simp_all add: rd_eval)

lemma rd_49: "round_to_double (1099 / 100) = Fin (6186819988100219 / 562949953421312)"
  by (rule round_to_double_pos [where k = 3 and e = "- 49" and m = 6186819988100219])
     (simp_all add: rd_eval)

lemma rd_50: "round_to_double (201 / 2) = Fin (201 / 2)"
  by (rule round_to_double_pos [where k = 6 and e = "- 46" and m = 7072058789855232])
     (simp_all add: rd_eval)

lemma rd_51: "round_to_double (503 / 5) = Fin (3539547832136499 / 35184372088832)"
  by (rule round_to_double_pos [where k = 6 and e = "- 46" and m = 7079095664272998])
     (simp_all add: rd_eval)

lemma rd_52: "round_to_double 100000000000000000000000000 = Fin 100000000000000004764729344"
  by (rule round_to_double_pos [where k = 86 and e = 34 and m = 5820766091346741])
     (simp_all add: rd_eval)

lemma rd_53: "round_to_double 200000000000000000000000000 = Fin 200000000000000009529458688"
  by (rule round_to_double_pos [where k = 87 and e = 35 and m = 5820766091346741])
     (simp_all add: rd_eval)

lemma rd_54: "round_to_double 10000000000000000000000000000 = Fin 9999999999999999583119736832"
  by (rule round_to_double_pos [where k = 93 and e = 41 and m = 4547473508864641])
     (simp_all add: rd_eval)

lemma rd_55: "round_to_double 9000000000000000000000000000 = Fin 8999999999999999844710088704"
  by (rule round_to_double_pos [where k = 92 and e = 40 and m = 8185452315956354])
     (simp_all add: rd_eval)

lemma rd_56: "round_to_double 90 = Fin 90"
  by (rule round_to_double_pos [where k = 6 and e = "- 46" and m = 6333186975989760])
     (simp_all add: rd_eval)

lemma rd_57: "round_to_double 1000000000000000000000000000000 = Fin 1000000000000000019884624838656"
  by (rule round_to_double_pos [where k = 99 and e = 47 and m = 7105427357601002])
     (simp_all add: rd_eval)

lemma rd_58: "round_to_double (500000000000000009942312419328 / 45) = Fin 11111111111111111869590405120"
  by (rule round_to_double_pos [where k = 93 and e = 41 and m = 5052748343182935])
     (simp_all add: rd_eval)

lemma rd_59: "round_to_double 11000000000000000000000000000 = Fin 10999999999999999321529384960"
  by (rule round_to_double_pos [where k = 93 and e = 41 and m = 5002220859751105])
     (simp_all add: rd_eval)

lemma rd_60: "round_to_double (- 111111111111112548061020160) = Fin (- 111111111111112548061020160)"
  by (rule round_to_double_neg [where k = 86 and e = 34 and m = 6467517879274240])
     (simp_all add: rd_eval)

lemma rd_61: "round_to_double (10105496686366 / 1000444171950221) = Fin (2911417940926419 / 288230376151711744)"
  by (rule round_to_double_pos [where k = "- 7" and e = "- 59" and m = 5822835881852838])
     (simp_all add: rd_eval)

lemma rd_62: "round_to_double (72785448523160475 / 72057594037927936) = Fin (2274545266348765 / 2251799813685248)"
  by (rule round_to_double_pos [where k = 0 and e = "- 52" and m = 4549090532697530])
     (simp_all add: rd_eval)

lemma rd_63: "round_to_double 20000000000000000000000000000 = Fin 19999999999999999166239473664"
  by (rule round_to_double_pos [where k = 94 and e = 42 and m = 4547473508864641])
     (simp_all add: rd_eval)

lemma rd_64: "round_to_double 10050 = Fin 10050"
  by (rule round_to_double_pos [where k = 13 and e = "- 39" and m = 5525045929574400])
     (simp_all add: rd_eval)

lemma rd_65: "round_to_double (- (1 / 2)) = Fin (- (1 / 2))"
  by (rule round_to_double_neg [where k = "- 1" and e = "- 53" and m = 4503599627370496])
     (simp_all add: rd_eval)

lemma rd_66: "round_to_double (1 / 200) = Fin (5764607523034235 / 1152921504606846976)"
  by (rule round_to_double_pos [where k = "- 8" and e = "- 60" and m = 5764607523034235])
     (simp_all add: rd_eval)

lemma rd_67: "round_to_double (144115188075855875 / 288230376151711744) = Fin (1 / 2)"
  by (rule round_to_double_pos [where k = "- 1" and e = "- 53" and m = 4503599627370496])
     (simp_all add: rd_eval)

lemma rd_68: "round_to_double (2001 / 25) = Fin (5632314283980227 / 70368744177664)"
  by (rule round_to_double_pos [where k = 6 and e = "- 46" and m = 5632314283980227])
     (simp_all add: rd_eval)

lemma rd_69: "round_to_double 10005 = Fin 10005"
  by (rule round_to_double_pos [where k = 13 and e = "- 39" and m = 5500306917949440])
     (simp_all add: rd_eval)

lemma rd_70: "round_to_double (704039285497528320 / 5632314283980227) = Fin (8796093022207999 / 70368744177664)"
  by (rule round_to_double_pos [where k = 6 and e = "- 46" and m = 8796093022207999])
     (simp_all add: rd_eval)

lemma rd_71: "round_to_double (- (351843720888319 / 70368744177664)) = Fin (- (351843720888319 / 70368744177664))"
  by (rule round_to_double_neg [where k = 2 and e = "- 50" and m = 5629499534213104])
     (simp_all add: rd_eval)

lemma rd_72: "round_to_double (351843720888319 / 8444249301319680) = Fin (1501199875790161 / 36028797018963968)"
  by (rule round_to_double_pos [where k = "- 5" and e = "- 57" and m = 6004799503160644])
     (simp_all add: rd_eval)

lemma rd_73: "round_to_double (37529996894754025 / 9007199254740992) = Fin (4691249611844253 / 1125899906842624)"
  by (rule round_to_double_pos [where k = 2 and e = "- 50" and m = 4691249611844253])
     (simp_all add: rd_eval)

lemma rd_74: "round_to_double 124 = Fin 124"
  by (rule round_to_double_pos [where k = 6 and e = "- 46" and m = 8725724278030336])
     (simp_all add: rd_eval)

lemma rd_75: "round_to_double 125 = Fin 125"
  by (rule round_to_double_pos [where k = 6 and e = "- 46" and m = 8796093022208000])
     (simp_all add: rd_eval)

lemma rd_76: "round_to_double (1249 / 10) = Fin (4394528073895117 / 35184372088832)"
  by (rule round_to_double_pos [where k = 6 and e = "- 46" and m = 8789056147790234])
     (simp_all add: rd_eval)

lemma rd_77: "round_to_double (12499 / 100) = Fin (8795389334766223 / 70368744177664)"
  by (rule round_to_double_pos [where k = 6 and e = "- 46" and m = 8795389334766223])
     (simp_all add: rd_eval)

lemma rd_78: "round_to_double (124999 / 1000) = Fin (4398011326731911 / 35184372088832)"
  by (rule round_to_double_pos [where k = 6 and e = "- 46" and m = 8796022653463822])
     (simp_all add: rd_eval)

lemma rd_79: "round_to_double (1249999 / 10000) = Fin (4398042992666791 / 35184372088832)"
  by (rule round_to_double_pos [where k = 6 and e = "- 46" and m = 8796085985333582])
     (simp_all add: rd_eval)

lemma rd_80: "round_to_double (12499999 / 100000) = Fin (4398046159260279 / 35184372088832)"
  by (rule round_to_double_pos [where k = 6 and e = "- 46" and m = 8796092318520558])
     (simp_all add: rd_eval)

lemma rd_81: "round_to_double (124999999 / 1000000) = Fin (1099511618979907 / 8796093022208)"
  by (rule round_to_double_pos [where k = 6 and e = "- 46" and m = 8796092951839256])
     (simp_all add: rd_eval)

lemma rd_82: "round_to_double (1249999999 / 10000000) = Fin (4398046507585563 / 35184372088832)"
  by (rule round_to_double_pos [where k = 6 and e = "- 46" and m = 8796093015171126])
     (simp_all add: rd_eval)

lemma rd_83: "round_to_double (12499999999 / 100000000) = Fin (8796093021504313 / 70368744177664)"
  by (rule round_to_double_pos [where k = 6 and e = "- 46" and m = 8796093021504313])
     (simp_all add: rd_eval)

lemma rd_84: "round_to_double (124999999999 / 1000000000) = Fin (8796093022137631 / 70368744177664)"
  by (rule round_to_double_pos [where k = 6 and e = "- 46" and m = 8796093022137631])
     (simp_all add: rd_eval)

lemma rd_85: "round_to_double (1249999999999 / 10000000000) = Fin (8796093022200963 / 70368744177664)"
  by (rule round_to_double_pos [where k = 6 and e = "- 46" and m = 8796093022200963])
     (simp_all add: rd_eval)

lemma rd_86: "round_to_double (12499999999999 / 100000000000) = Fin (137438953471989 / 1099511627776)"
  by (rule round_to_double_pos [where k = 6 and e = "- 46" and m = 8796093022207296])
     (simp_all add: rd_eval)

lemma rd_87: "round_to_double (124999999999999 / 1000000000000) = Fin (4398046511103965 / 35184372088832)"
  by (rule round_to_double_pos [where k = 6 and e = "- 46" and m = 8796093022207930])
     (simp_all add: rd_eval)

lemma rd_88: "round_to_double (1249999999999999 / 10000000000000) = Fin (8796093022207993 / 70368744177664)"
  by (rule round_to_double_pos [where k = 6 and e = "- 46" and m = 8796093022207993])
     (simp_all add: rd_eval)

lemma rd_89: "round_to_double (6249999999999999 / 50000000000000) = Fin (8796093022207999 / 70368744177664)"
  by (rule round_to_double_pos [where k = 6 and e = "- 46" and m = 8796093022207999])
     (simp_all add: rd_eval)

lemma rd_90: "round_to_double (12499999999999999 / 100000000000000) = Fin (8796093022207999 / 70368744177664)"
  by (rule round_to_double_pos [where k = 6 and e = "- 46" and m = 8796093022207999])
     (simp_all add: rd_eval)

lemma rd_91: "round_to_double (506253 / 50) = Fin (5566310600964833 / 549755813888)"
  by (rule round_to_double_pos [where k = 13 and e = "- 39" and m = 5566310600964833])
     (simp_all add: rd_eval)

lemma rd_92: "round_to_double (712487756923498624 / 5632314283980227) = Fin (8901646138474495 / 70368744177664)"
  by (rule round_to_double_pos [where k = 6 and e = "- 46" and m = 8901646138474495])
     (simp_all add: rd_eval)

lemma rd_93: "round_to_double (- (457396837154815 / 70368744177664)) = Fin (- (457396837154815 / 70368744177664))"
  by (rule round_to_double_neg [where k = 2 and e = "- 50" and m = 7318349394477040])
     (simp_all add: rd_eval)

lemma rd_94: "round_to_double (91479367430963 / 1688849860263936) = Fin (7806239354108843 / 144115188075855872)"
  by (rule round_to_double_pos [where k = "- 5" and e = "- 57" and m = 7806239354108843])
     (simp_all add: rd_eval)

lemma rd_95: "round_to_double (195155983852721075 / 36028797018963968) = Fin (3049312247698767 / 562949953421312)"
  by (rule round_to_double_pos [where k = 2 and e = "- 50" and m = 6098624495397534])
     (simp_all add: rd_eval)

lemma rd_96: "round_to_double 126 = Fin 126"
  by (rule round_to_double_pos [where k = 6 and e = "- 46" and m = 8866461766385664])
     (simp_all add: rd_eval)

lemma rd_97: "round_to_double 127 = Fin 127"
  by (rule round_to_double_pos [where k = 6 and e = "- 46" and m = 8936830510563328])
     (simp_all add: rd_eval)

lemma rd_98: "round_to_double (632 / 5) = Fin (4447304632028365 / 35184372088832)"
  by (rule round_to_double_pos [where k = 6 and e = "- 46" and m = 8894609264056730])
     (simp_all add: rd_eval)

lemma rd_99: "round_to_double (253 / 2) = Fin (253 / 2)"
  by (rule round_to_double_pos [where k = 6 and e = "- 46" and m = 8901646138474496])
     (simp_all add: rd_eval)

lemma rd_100: "round_to_double (12649 / 100) = Fin (8900942451032719 / 70368744177664)"
  by (rule round_to_double_pos [where k = 6 and e = "- 46" and m = 8900942451032719])
     (simp_all add: rd_eval)

lemma rd_101: "round_to_double (126499 / 1000) = Fin (4450787884865159 / 35184372088832)"
  by (rule round_to_double_pos [where k = 6 and e = "- 46" and m = 8901575769730318])
     (simp_all add: rd_eval)

lemma rd_102: "round_to_double (1264999 / 10000) = Fin (4450819550800039 / 35184372088832)"
  by (rule round_to_double_pos [where k = 6 and e = "- 46" and m = 8901639101600078])
     (simp_all add: rd_eval)

lemma rd_103: "round_to_double (12649999 / 100000) = Fin (4450822717393527 / 35184372088832)"
  by (rule round_to_double_pos [where k = 6 and e = "- 46" and m = 8901645434787054])
     (simp_all add: rd_eval)

lemma rd_104: "round_to_double (126499999 / 1000000) = Fin (1112705758513219 / 8796093022208)"
  by (rule round_to_double_pos [where k = 6 and e = "- 46" and m = 8901646068105752])
     (simp_all add: rd_eval)

lemma rd_105: "round_to_double (1264999999 / 10000000) = Fin (4450823065718811 / 35184372088832)"
  by (rule round_to_double_pos [where k = 6 and e = "- 46" and m = 8901646131437622])
     (simp_all add: rd_eval)

lemma rd_106: "round_to_double (12649999999 / 100000000) = Fin (8901646137770809 / 70368744177664)"
  by (rule round_to_double_pos [where k = 6 and e = "- 46" and m = 8901646137770809])
     (simp_all add: rd_eval)

lemma rd_107: "round_to_double (126499999999 / 1000000000) = Fin (8901646138404127 / 70368744177664)"
  by (rule round_to_double_pos [where k = 6 and e = "- 46" and m = 8901646138404127])
     (simp_all add: rd_eval)

lemma rd_108: "round_to_double (1264999999999 / 10000000000) = Fin (8901646138467459 / 70368744177664)"
  by (rule round_to_double_pos [where k = 6 and e = "- 46" and m = 8901646138467459])
     (simp_all add: rd_eval)

lemma rd_109: "round_to_double (12649999999999 / 100000000000) = Fin (139088220913653 / 1099511627776)"
  by (rule round_to_double_pos [where k = 6 and e = "- 46" and m = 8901646138473792])
     (simp_all add: rd_eval)

lemma rd_110: "round_to_double (126499999999999 / 1000000000000) = Fin (4450823069237213 / 35184372088832)"
  by (rule round_to_double_pos [where k = 6 and e = "- 46" and m = 8901646138474426])
     (simp_all add: rd_eval)

lemma rd_111: "round_to_double (1264999999999999 / 10000000000000) = Fin (8901646138474489 / 70368744177664)"
  by (rule round_to_double_pos [where k = 6 and e = "- 46" and m = 8901646138474489])
     (simp_all add: rd_eval)

lemma rd_112: "round_to_double (6324999999999999 / 50000000000000) = Fin (8901646138474495 / 70368744177664)"
  by (rule round_to_double_pos [where k = 6 and e = "- 46" and m = 8901646138474495])
     (simp_all add: rd_eval)

lemma rd_113: "round_to_double (12649999999999999 / 100000000000000) = Fin (8901646138474495 / 70368744177664)"
  by (rule round_to_double_pos [where k = 6 and e = "- 46" and m = 8901646138474495])
     (simp_all add: rd_eval)

lemmas roundings =
  rd_1 rd_2 rd_3 rd_4 rd_5 rd_6 rd_7 rd_8 rd_9 rd_10 rd_11 rd_12
  rd_13 rd_14 rd_15 rd_16 rd_17 rd_18 rd_19 rd_20 rd_21 rd_22 rd_23 rd_24
  rd_25 rd_26 rd_27 rd_28 rd_29 rd_30 rd_31 rd_32 rd_33 rd_34 rd_35 rd_36
  rd_37 rd_38 rd_39 rd_40 rd_41 rd_42 rd_43 rd_44 rd_45 rd_46 rd_47 rd_48
  rd_49 rd_50 rd_51 rd_52 rd_53 rd_54 rd_55 rd_56 rd_57 rd_58 rd_59 rd_60
  rd_61 rd_62 rd_63 rd_64 rd_65 rd_66 rd_67 rd_68 rd_69 rd_70 rd_71 rd_72
  rd_73 rd_74 rd_75 rd_76 rd_77 rd_78 rd_79 rd_80 rd_81 rd_82 rd_83 rd_84
  rd_85 rd_86 rd_87 rd_88 rd_89 rd_90 rd_91 rd_92 rd_93 rd_94 rd_95 rd_96
  rd_97 rd_98 rd_99 rd_100 rd_101 rd_102 rd_103 rd_104 rd_105 rd_106 rd_107 rd_108
  rd_109 rd_110 rd_111 rd_112 rd_113

section \<open>The printed decimals of the examples\<close>

text \<open>
  What \<open>str\<close> prints for the floats that an example below truncates or rounds.
\<close>

lemma printed_1: "repr_decimal 100 = 100"
  by (simp add: repr_eval roundings)

lemma printed_2: "repr_decimal 105 = 105"
  by (simp add: repr_eval roundings)

lemma printed_3: "repr_decimal (7748302421402583 / 70368744177664) = (11011 / 100)"
  by (simp add: repr_eval roundings)

lemma printed_4: "repr_decimal (3521955646092083 / 35184372088832) = (1001 / 10)"
  by (simp add: repr_eval roundings)

lemma printed_5: "repr_decimal (738022441133015 / 549755813888) = (268491 / 200)"
  by (simp add: repr_eval roundings)

lemma printed_6: "repr_decimal (6191886537681011 / 562949953421312) = (10999 / 1000)"
  by (simp add: repr_eval roundings)

lemma printed_7: "repr_decimal (201 / 2) = (201 / 2)"
  by (simp add: repr_eval roundings)

lemma printed_8: "repr_decimal 100000000000000004764729344 = 100000000000000000000000000"
  by (simp add: repr_eval roundings)

lemma printed_9: "repr_decimal 9999999999999999583119736832 = 10000000000000000000000000000"
  by (simp add: repr_eval roundings)

lemma printed_10: "repr_decimal 10999999999999999321529384960 = 11000000000000000000000000000"
  by (simp add: repr_eval roundings)

lemma printed_11: "repr_decimal 120 = 120"
  by (simp add: repr_eval roundings)

lemma printed_12: "repr_decimal (8796093022207999 / 70368744177664) = (12499999999999999 / 100000000000000)"
  by (simp add: repr_eval roundings)

lemma printed_13: "repr_decimal (8901646138474495 / 70368744177664) = (12649999999999999 / 100000000000000)"
  by (simp add: repr_eval roundings)

lemmas printed =
  printed_1 printed_2 printed_3 printed_4 printed_5 printed_6 printed_7 printed_8
  printed_9 printed_10 printed_11 printed_12 printed_13

section \<open>Digits and timestamps: writing and reading back\<close>

lemma digit_val_digit_char: "d < 10 \<Longrightarrow> digit_val (digit_char d) = Some d"
  by (simp add: digit_val_def digit_char_def Let_def)

lemma of_char_digit_char: "d < 10 \<Longrightarrow> (of_char (digit_char d) :: nat) = 48 + d"
  by (simp add: digit_char_def)

lemma digit_chars:
  "digit_char 0 = CHR ''0''" "digit_char 1 = CHR ''1''" "digit_char 2 = CHR ''2''"
  "digit_char 3 = CHR ''3''" "digit_char 4 = CHR ''4''" "digit_char 5 = CHR ''5''"
  "digit_char 6 = CHR ''6''" "digit_char 7 = CHR ''7''" "digit_char 8 = CHR ''8''"
  "digit_char 9 = CHR ''9''" "digit_char (Suc 0) = CHR ''1''"
  unfolding digit_char_def by code_simp+

lemma not_sign_digit_char: "d < 10 \<Longrightarrow> \<not> is_sign (digit_char d)"
proof -
  assume "d < 10"
  then have "digit_val (digit_char d) = Some d"
    by (rule digit_val_digit_char)
  moreover have "digit_val CHR ''+'' = None" "digit_val CHR ''-'' = None"
    by (simp_all add: digit_val_def)
  ultimately show ?thesis
    by (auto simp: is_sign_def)
qed

lemma not_space_digit_char: "d < 10 \<Longrightarrow> \<not> is_space (digit_char d)"
  using of_char_digit_char [of d] by (auto simp add: is_space_def)

lemma parse_nat_pad2: "n < 100 \<Longrightarrow> parse_nat 2 (pad2 n) = Some n"
  by (simp add: parse_nat_def pad2_def digit_val_digit_char)

lemma parse_nat_pad4: "n < 10000 \<Longrightarrow> parse_nat 4 (pad4 n) = Some n"
  by (simp add: parse_nat_def pad2_def pad4_def digit_val_digit_char)

lemma parse_nat_pad6: "n < 1000000 \<Longrightarrow> parse_nat 6 (pad6 n) = Some n"
  by (simp add: parse_nat_def pad2_def pad4_def pad6_def digit_val_digit_char)

lemma length_pad2: "length (pad2 n) = 2"
  by (simp add: pad2_def)

lemma length_pad4: "length (pad4 n) = 4"
  by (simp add: pad4_def length_pad2)

lemma length_pad6: "length (pad6 n) = 6"
  by (simp add: pad6_def length_pad2 length_pad4)

lemma no_sign_pad2: "\<forall>c \<in> set (pad2 n). \<not> is_sign c"
  by (simp add: pad2_def not_sign_digit_char)

lemma no_sign_pad4: "\<forall>c \<in> set (pad4 n). \<not> is_sign c"
  using no_sign_pad2 by (auto simp add: pad4_def)

lemma no_sign_pad6: "\<forall>c \<in> set (pad6 n). \<not> is_sign c"
  using no_sign_pad2 no_sign_pad4 by (auto simp add: pad6_def)

lemma isoformat_split:
  "isoformat t = date_str t @ ''T'' @ (hms_str t @ frac_str t) @ offset_str (utcoffset t)"
  by (simp add: isoformat_def date_str_def hms_str_def frac_str_def)

lemma length_date_str: "length (date_str t) = 10"
  by (simp add: date_str_def length_pad2 length_pad4)

lemma length_hms_str: "length (hms_str t) = 8"
  by (simp add: hms_str_def length_pad2)

lemma parse_date_date_str:
  assumes "valid_date (year t) (month t) (day t)"
  shows "parse_date (date_str t) = Some (year t, month t, day t)"
proof -
  have y: "year t < 10000" and m: "month t < 100" and d: "day t < 100"
    using assms by (auto simp: valid_date_def days_in_month_def split: if_splits)
  have 1: "take 4 (date_str t) = pad4 (year t)"
    by (simp add: date_str_def length_pad4)
  have 2: "take 2 (drop 5 (date_str t)) = pad2 (month t)"
    by (simp add: date_str_def length_pad4 length_pad2)
  have 3: "drop 8 (date_str t) = pad2 (day t)"
    by (simp add: date_str_def length_pad4 length_pad2)
  have 4: "date_str t ! 4 = CHR ''-''" "date_str t ! 7 = CHR ''-''"
    by (simp_all add: date_str_def nth_append length_pad4 length_pad2)
  show ?thesis
    unfolding parse_date_def
    by (simp add: 1 2 3 4 length_date_str parse_nat_pad4 [OF y] parse_nat_pad2 [OF m]
        parse_nat_pad2 [OF d] assms)
qed

lemma no_sign_hms_str: "\<forall>c \<in> set (hms_str t). \<not> is_sign c"
proof -
  have "\<not> is_sign CHR '':''"
    by (simp add: is_sign_def)
  then show ?thesis
    using no_sign_pad2 [of "hour t"] no_sign_pad2 [of "minute t"] no_sign_pad2 [of "second t"]
    by (simp add: hms_str_def ball_Un)
qed

lemma no_sign_frac_str: "\<forall>c \<in> set (frac_str t). \<not> is_sign c"
proof -
  have "\<not> is_sign CHR ''.''"
    by (simp add: is_sign_def)
  then show ?thesis
    using no_sign_pad6 [of "microsecond t"] by (simp add: frac_str_def)
qed

lemma parse_fraction_frac_str:
  assumes "microsecond t < 1000000"
  shows "parse_fraction (frac_str t) = Some (microsecond t)"
  by (simp add: frac_str_def parse_fraction_def length_pad6 parse_nat_pad6 [OF assms])

lemma parse_time_time_str:
  assumes "valid_time (hour t) (minute t) (second t) (microsecond t)"
  shows "parse_time (hms_str t @ frac_str t) = Some (hour t, minute t, second t, microsecond t)"
proof -
  have h: "hour t < 100" and m: "minute t < 100" and s: "second t < 100"
    and u: "microsecond t < 1000000"
    using assms by (auto simp: valid_time_def)
  have 1: "take 2 (hms_str t @ frac_str t) = pad2 (hour t)"
    by (simp add: hms_str_def length_pad2)
  have 2: "take 2 (drop 3 (hms_str t @ frac_str t)) = pad2 (minute t)"
    by (simp add: hms_str_def length_pad2)
  have 3: "take 2 (drop 6 (hms_str t @ frac_str t)) = pad2 (second t)"
    by (simp add: hms_str_def length_pad2)
  have 4: "(hms_str t @ frac_str t) ! 2 = CHR '':''" "(hms_str t @ frac_str t) ! 5 = CHR '':''"
    by (simp_all add: hms_str_def nth_append length_pad2)
  have 5: "drop 8 (hms_str t @ frac_str t) = frac_str t"
    by (simp add: length_hms_str)
  have 6: "8 \<le> length (hms_str t @ frac_str t)"
    by (simp add: length_hms_str)
  show ?thesis
    unfolding parse_time_def 1 2 3 5 parse_nat_pad2 [OF h] parse_nat_pad2 [OF m]
      parse_nat_pad2 [OF s] parse_fraction_frac_str [OF u]
    using 4 6 assms by simp
qed

lemma offset_str_utc: "offset_str (Some 0) = ''+00:00''"
  by (simp add: offset_str_def pad2_def digit_chars)

lemma parse_offset_utc: "parse_offset ''+00:00'' = Some 0"
  by (simp add: parse_offset_def parse_nat_def digit_val_def)

lemma fromisoformat_isoformat:
  assumes "valid_datetime t" and "utcoffset t = Some 0"
  shows "fromisoformat (isoformat t) = Some t"
proof -
  have d: "valid_date (year t) (month t) (day t)"
    and v: "valid_time (hour t) (minute t) (second t) (microsecond t)"
    using assms(1) by (simp_all add: valid_datetime_def)
  let ?s = "isoformat t"
  have 1: "take 10 ?s = date_str t"
    by (simp add: isoformat_split length_date_str)
  have 2: "drop 10 ?s = CHR ''T'' # ((hms_str t @ frac_str t) @ ''+00:00'')"
    by (simp add: isoformat_split length_date_str assms(2) offset_str_utc)
  have 3: "takeWhile (\<lambda>c. \<not> is_sign c) (hms_str t @ frac_str t @ ''+00:00'')
             = hms_str t @ frac_str t"
    using no_sign_hms_str [of t] no_sign_frac_str [of t]
    by (simp add: takeWhile_append2 is_sign_def ball_Un del: takeWhile_append)
  have 4: "dropWhile (\<lambda>c. \<not> is_sign c) (hms_str t @ frac_str t @ ''+00:00'') = ''+00:00''"
    using no_sign_hms_str [of t] no_sign_frac_str [of t]
    by (simp add: dropWhile_append2 is_sign_def ball_Un del: dropWhile_append)
  have "fromisoformat ?s =
      Some \<lparr>year = year t, month = month t, day = day t, hour = hour t, minute = minute t,
            second = second t, microsecond = microsecond t, utcoffset = Some 0\<rparr>"
    unfolding fromisoformat_def 1 2 parse_date_date_str [OF d] Let_def
    by (simp add: 3 4 parse_offset_utc parse_time_time_str [OF v]
        del: takeWhile_append dropWhile_append)
  also have "\<dots> = Some t"
    using assms(2) by simp
  finally show ?thesis .
qed

lemma strip_id:
  assumes "s \<noteq> []" and "\<not> is_space (hd s)" and "\<not> is_space (last s)"
  shows "strip s = s"
proof -
  have 1: "dropWhile is_space s = s"
    using assms(1,2) by (cases s) simp_all
  have "rev s \<noteq> []" "\<not> is_space (hd (rev s))"
    using assms(1,3) by (simp_all add: hd_rev)
  then have 2: "dropWhile is_space (rev s) = rev s"
    by (cases "rev s") simp_all
  show ?thesis
    by (simp add: strip_def 1 2)
qed

lemma isoformat_utc_ends:
  assumes "utcoffset t = Some 0"
  shows "isoformat t \<noteq> [] \<and> hd (isoformat t) = digit_char (year t div 100 div 10 mod 10) \<and>
         last (isoformat t) = CHR ''0''"
  using assms by (simp add: isoformat_def offset_str_utc pad4_def pad2_def)

lemma format_datetime_isoformat:
  assumes "valid_datetime t" and "utcoffset t = Some 0"
  shows "format_datetime (JStr (isoformat t)) = ShownAt t"
proof -
  note e = isoformat_utc_ends [OF assms(2)]
  have sp0: "\<not> is_space CHR ''0''"
    by (simp add: is_space_def)
  have "\<not> is_space (hd (isoformat t))"
    using e by (simp add: not_space_digit_char)
  then have s: "strip (isoformat t) = isoformat t"
    using e sp0 by (simp add: strip_id)
  show ?thesis
    using e by (simp add: format_datetime_def s fromisoformat_isoformat [OF assms])
qed

lemma isoformat_example_clock:
  "isoformat example_clock = ''2025-11-11T09:30:00.123456+00:00''"
  by (simp add: isoformat_def example_clock_def pad2_def pad4_def pad6_def offset_str_def
      digit_chars)

lemma valid_example_clock: "valid_datetime example_clock \<and> utcoffset example_clock = Some 0"
  by (simp add: valid_datetime_def valid_date_def valid_time_def days_in_month_def
      example_clock_def)

section \<open>The two rounding rules\<close>

lemma round_down_bounds:
  "\<bar>real_of_int (round_down (s * 100)) / 100\<bar> \<le> \<bar>s\<bar> \<and>
   \<bar>s\<bar> - \<bar>real_of_int (round_down (s * 100)) / 100\<bar> < 1 / 100 \<and>
   0 \<le> real_of_int (round_down (s * 100)) / 100 * s"
proof (cases "0 \<le> s")
  case True
  define k where "k = real_of_int \<lfloor>s * 100\<rfloor>"
  have t: "real_of_int (round_down (s * 100)) = k"
    using True by (simp add: round_down_def k_def)
  have "0 \<le> s * 100"
    using True by simp
  then have k0: "0 \<le> k"
    by (simp add: k_def)
  have k1: "k \<le> s * 100" and k2: "s * 100 < k + 1"
    unfolding k_def by linarith+
  have "\<bar>k / 100\<bar> = k / 100" "\<bar>s\<bar> = s" "0 \<le> k / 100 * s"
    using k0 True by simp_all
  then show ?thesis
    unfolding t using k1 k2 by simp
next
  case False
  define k where "k = real_of_int \<lceil>s * 100\<rceil>"
  have t: "real_of_int (round_down (s * 100)) = k"
    using False by (simp add: round_down_def k_def)
  have "s * 100 \<le> 0"
    using False by simp
  then have "\<lceil>s * 100\<rceil> \<le> 0"
    by (simp add: ceiling_le_zero)
  then have k0: "k \<le> 0"
    by (simp add: k_def)
  have k1: "s * 100 \<le> k" and k2: "k - 1 < s * 100"
    unfolding k_def by linarith+
  have "\<bar>k / 100\<bar> = - k / 100" "\<bar>s\<bar> = - s"
    using k0 False by simp_all
  moreover have "0 \<le> k / 100 * s"
    using k0 False by (simp add: mult_nonpos_nonpos)
  ultimately show ?thesis
    unfolding t using k1 k2 by simp
qed

lemma half_up_nearest:
  "\<bar>real_of_int (half_up s) - s\<bar> \<le> 1 / 2 \<and>
   (\<bar>real_of_int (half_up s) - s\<bar> = 1 / 2 \<longrightarrow> \<bar>s\<bar> < \<bar>real_of_int (half_up s)\<bar>)"
proof (cases "0 \<le> s")
  case True
  define r where "r = real_of_int \<lfloor>s + 1 / 2\<rfloor>"
  have e: "real_of_int (half_up s) = r"
    using True by (simp add: half_up_def r_def)
  have "r \<le> s + 1 / 2" and "s + 1 / 2 < r + 1"
    unfolding r_def by linarith+
  then show ?thesis
    unfolding e using True by (auto simp add: abs_if split: if_splits)
next
  case False
  define r where "r = real_of_int \<lceil>s - 1 / 2\<rceil>"
  have e: "real_of_int (half_up s) = r"
    using False by (simp add: half_up_def r_def)
  have "s - 1 / 2 \<le> r" and "r - 1 < s - 1 / 2"
    unfolding r_def by linarith+
  then show ?thesis
    unfolding e using False by (auto simp add: abs_if split: if_splits)
qed

text \<open>
  The result of \<open>quantize\<close> has more than 28 digits exactly when the printed decimal is
  \<open>10^26\<close> or more in magnitude, for the display value, and \<open>10^28 - 1/2\<close> or more
  for the invoicing integer.
\<close>

lemma round_down_digits: "(\<bar>round_down (s * 100)\<bar> < 10 ^ 28) = (\<bar>s\<bar> < 10 ^ 26)"
proof (cases "0 \<le> s")
  case True
  then have "0 \<le> s * 100"
    by simp
  then have "0 \<le> \<lfloor>s * 100\<rfloor>"
    by simp
  then have "(\<bar>round_down (s * 100)\<bar> < 10 ^ 28) = (\<lfloor>s * 100\<rfloor> < 10 ^ 28)"
    using True by (simp add: round_down_def)
  also have "\<dots> = (s * 100 < 10 ^ 28)"
    by (simp add: floor_less_iff)
  also have "\<dots> = (\<bar>s\<bar> < 10 ^ 26)"
    using True by simp
  finally show ?thesis .
next
  case False
  then have "s * 100 \<le> 0"
    by simp
  then have c: "\<lceil>s * 100\<rceil> \<le> 0"
    by (simp add: ceiling_le_zero)
  have a: "\<bar>round_down (s * 100)\<bar> = - \<lceil>s * 100\<rceil>"
    using False c by (simp add: round_down_def)
  have "(- \<lceil>s * 100\<rceil> < 10 ^ 28) = (- (10 ^ 28) < \<lceil>s * 100\<rceil>)"
    by linarith
  also have "\<dots> = (- (10 ^ 28) < s * 100)"
    by (simp only: less_ceiling_iff) simp
  also have "\<dots> = (\<bar>s\<bar> < 10 ^ 26)"
    using False by (auto simp add: abs_if)
  finally show ?thesis
    unfolding a .
qed

lemma half_up_digits: "(\<bar>half_up s\<bar> < 10 ^ 28) = (\<bar>s\<bar> < 10 ^ 28 - 1 / 2)"
proof (cases "0 \<le> s")
  case True
  then have "0 \<le> \<lfloor>s + 1 / 2\<rfloor>"
    by simp
  then have "(\<bar>half_up s\<bar> < 10 ^ 28) = (\<lfloor>s + 1 / 2\<rfloor> < 10 ^ 28)"
    using True by (simp add: half_up_def)
  also have "\<dots> = (s + 1 / 2 < 10 ^ 28)"
    by (simp add: floor_less_iff)
  also have "\<dots> = (\<bar>s\<bar> < 10 ^ 28 - 1 / 2)"
    using True by auto
  finally show ?thesis .
next
  case False
  then have "s - 1 / 2 \<le> 0"
    by simp
  then have c: "\<lceil>s - 1 / 2\<rceil> \<le> 0"
    by (simp only: ceiling_le_zero)
  have a: "\<bar>half_up s\<bar> = - \<lceil>s - 1 / 2\<rceil>"
    using False c by (simp add: half_up_def)
  have "(- \<lceil>s - 1 / 2\<rceil> < 10 ^ 28) = (- (10 ^ 28) < \<lceil>s - 1 / 2\<rceil>)"
    by linarith
  also have "\<dots> = (- (10 ^ 28) < s - 1 / 2)"
    by (simp only: less_ceiling_iff) simp
  also have "\<dots> = (\<bar>s\<bar> < 10 ^ 28 - 1 / 2)"
    using False by (auto simp add: abs_if)
  finally show ?thesis
    unfolding a .
qed

lemma trunc2_finite:
  "trunc2 (Fin x) =
     (if \<bar>repr_decimal x\<bar> < 10 ^ 26
      then Inr (round_to_double (real_of_int (round_down (repr_decimal x * 100)) / 100))
      else Inl InvalidOperation)"
proof -
  have "(10 ^ 28 \<le> \<bar>round_down (repr_decimal x * 100)\<bar>) = (\<not> \<bar>repr_decimal x\<bar> < 10 ^ 26)"
    using round_down_digits [of "repr_decimal x"] by linarith
  then show ?thesis
    by (simp add: Let_def)
qed

lemma round_half_up_finite:
  "round_half_up (Fin x) =
     (if \<bar>repr_decimal x\<bar> < 10 ^ 28 - 1 / 2 then Inr (half_up (repr_decimal x))
      else Inl InvalidOperation)"
proof -
  have "(10 ^ 28 \<le> \<bar>half_up (repr_decimal x)\<bar>) = (\<not> \<bar>repr_decimal x\<bar> < 10 ^ 28 - 1 / 2)"
    using half_up_digits [of "repr_decimal x"] by linarith
  then show ?thesis
    by (simp add: Let_def)
qed

section \<open>The handler, step by step\<close>

lemma provider_calls_stats: "provider_calls (update_user_stats st) = []"
  by (simp add: update_user_stats_def provider_calls_def handle_error_def split: option.splits)

lemma provider_calls_append:
  "provider_calls (xs @ ys) = provider_calls xs @ provider_calls ys"
  by (simp add: provider_calls_def)

text \<open>Among positive floats \<open>min\<close> and \<open>max\<close> return the lower and the higher one.\<close>

lemma fmin_fmax_order:
  assumes "flt (Fin 0) a" and "flt (Fin 0) b"
  shows "fle (fmin a b) a \<and> fle (fmin a b) b \<and> (fmin a b = a \<or> fmin a b = b) \<and>
         fle a (fmax a b) \<and> fle b (fmax a b) \<and> (fmax a b = a \<or> fmax a b = b)"
  using assms by (cases a; cases b) (auto simp add: fmin_def fmax_def)

lemma fmin_fmax_finite:
  "fmin (Fin a) (Fin b) = Fin (min a b) \<and> fmax (Fin a) (Fin b) = Fin (max a b)"
  by (auto simp add: fmin_def fmax_def)

text \<open>The division by the lower of two positive floats does not raise.\<close>

lemma division_by_lower_returns:
  assumes "flt (Fin 0) a" and "flt (Fin 0) b"
  shows "\<exists>ratio. fdiv d (fmin a b) = Inr ratio"
  using assms by (cases a; cases b; cases d) (auto simp add: fmin_def)

lemma positive_passes_validation:
  assumes "flt (Fin 0) a"
  shows "float_truthy a \<and> \<not> fle a (Fin 0)"
  using assms by (cases a) auto

lemma reconcile_positive:
  assumes "flt (Fin 0) (as_float xe)" and "flt (Fin 0) raw_b" and "truthy rate"
    and "truediv rub_amount rate = Inr raw_b"
    and "recommend (as_float xe) raw_b = Inr (pd, used)"
  shows "reconcile rub_amount (Some xe) rate cache =
     (case present (as_float xe) raw_b used of
        Inl e \<Rightarrow> Inl e
      | Inr (xe_show, easy_show, used_show, rounded) \<Rightarrow>
          Inr (ConversionReply
            \<lparr>eur_xe_show = xe_show,
             eur_easy_show = easy_show,
             percent_diff = pd,
             used_value_show = used_show,
             rounded_to_use = rounded,
             easy_rate_shown = rate,
             updated_time = format_datetime (dict_get cache ''updated_at'')\<rparr>))"
  using positive_passes_validation [OF assms(1)] positive_passes_validation [OF assms(2)]
    assms(3,4,5)
  by (simp add: reconcile_def)

lemma reconcile_reply:
  assumes "reconcile rub_amount (Some xe) rate cache = Inr (ConversionReply c)"
  shows "\<exists>raw_b pd used.
     truediv rub_amount rate = Inr raw_b \<and>
     recommend (as_float xe) raw_b = Inr (pd, used) \<and>
     percent_diff c = pd \<and>
     trunc2 (as_float xe) = Inr (eur_xe_show c) \<and>
     trunc2 raw_b = Inr (eur_easy_show c) \<and>
     trunc2 used = Inr (used_value_show c) \<and>
     round_half_up used = Inr (rounded_to_use c)"
proof (cases "truthy rate")
  case False
  then show ?thesis
    using assms by (simp add: reconcile_def)
next
  case True
  show ?thesis
  proof (cases "truediv rub_amount rate")
    case (Inl e)
    then show ?thesis
      using assms True by (simp add: reconcile_def)
  next
    case (Inr raw_b)
    note easy = Inr
    show ?thesis
    proof (cases "recommend (as_float xe) raw_b")
      case (Inl e)
      then show ?thesis
        using assms True easy by (simp add: reconcile_def split: if_splits)
    next
      case (Inr p)
      obtain pd used where p: "p = (pd, used)"
        by (cases p)
      show ?thesis
        using assms True easy Inr unfolding p
        by (auto simp add: reconcile_def present_def split: if_splits sum.splits)
    qed
  qed
qed

lemma reconcile_zero_rate: "reconcile amount xe (JNum 0) cache = Inr InvalidRate"
  by (simp add: reconcile_def as_float_zero split: option.splits)

lemma load_after_save:
  assumes "load f = Inr cache"
  shows "\<exists>cache'. load (fst (save r now w f)) = Inr cache'"
  using assms by (cases w) (simp_all add: save_def load_def is_instance_def)

text \<open>
  \<open>load\<close> returns for a file that is absent, unreadable, not a JSON document or a JSON
  document: the stored dict for a document that is a dict, the empty dict otherwise. In
  the remaining four states it raises.
\<close>

lemma load_returns:
  "f \<notin> {Inaccessible, Undecodable, TooDeep, HugeInteger} \<Longrightarrow>
     load f = Inr (case f of Document v \<Rightarrow> dict_or_empty v | _ \<Rightarrow> [])"
  by (cases f) (simp_all add: load_def is_instance_def)

lemma load_raises:
  "load Inaccessible = Inl PermissionError \<and> load TooDeep = Inl RecursionError \<and>
   load HugeInteger = Inl ValueError"
  by (simp add: load_def is_instance_def)

lemma load_complete_record:
  "load (Document (complete_record r t)) =
     Inr [(''rate'', JNum r), (''updated_at'', JStr (isoformat t))]"
  by (simp add: load_def complete_record_def)

section \<open>Rate reconciliation\<close>

text \<open>
  Two requests near the threshold of 10 percent. For 10,010 RUB at 100 RUB/EUR against
  110.11 EUR from XE the exact difference is 10 percent, the float computation gives
  \<open>10.000000000000005\<close>, and the lower value is recommended. For the raw values
  2162.545 and 1965.95 the exact difference is above 10 percent, the float computation
  gives exactly \<open>10.0\<close>, and the higher value is recommended.
\<close>

lemma divergence_just_above_ten:
  "reconcile 10010 (Some 110.11) (JNum 100) [] =
     Inr (ConversionReply
       \<lparr>eur_xe_show = as_float 110.11, eur_easy_show = as_float 100.1,
        percent_diff = Fin (5629499534213123 / 562949953421312),
        used_value_show = as_float 100.1, rounded_to_use = 100, easy_rate_shown = JNum 100,
        updated_time = UnknownDate\<rparr>) \<and>
   (10 :: real) < 5629499534213123 / 562949953421312"
  by (simp add: float_eval recommend_def present_def reconcile_def roundings printed
      format_datetime_def dict_get_def)

lemma divergence_exactly_ten:
  "recommend (as_float 2162.545) (as_float 1965.95) = Inr (Fin 10, as_float 2162.545)"
  by (simp add: float_eval recommend_def roundings printed)

text \<open>
  Claim C1. For positive raw values \<open>raw_a\<close> (XE) and \<open>raw_b\<close> (Easystaff), finite or
  infinite, step 5 of the handler computes in float arithmetic the divergence
  \<open>|raw_a - raw_b| / min(raw_a, raw_b) * 100\<close>, the division raising nothing, and
  recommends \<open>max(raw_a, raw_b)\<close> when the divergence is at most 10 and
  \<open>min(raw_a, raw_b)\<close> otherwise; \<open>min\<close> and \<open>max\<close> are the lower and the higher of the
  two values. When \<open>raw_a\<close> is the answer of XE and \<open>raw_b\<close> the quotient of the amount
  by a rate, the handler builds its reply from this divergence and this recommended
  value.
\<close>

theorem divergence_and_recommendation:
  assumes "flt (Fin 0) raw_a" and "flt (Fin 0) raw_b"
  shows "\<exists>ratio.
     fdiv (fabs (fsub raw_a raw_b)) (fmin raw_a raw_b) = Inr ratio \<and>
     (let percent_divergence = fmul ratio (Fin 100);
          recommended = (if fle percent_divergence (Fin 10) then fmax raw_a raw_b
                         else fmin raw_a raw_b)
      in recommend raw_a raw_b = Inr (percent_divergence, recommended) \<and>
         (as_float xe = raw_a \<and> truthy rate \<and> truediv rub_amount rate = Inr raw_b \<longrightarrow>
            reconcile rub_amount (Some xe) rate cache =
              (case present raw_a raw_b recommended of
                 Inl e \<Rightarrow> Inl e
               | Inr (xe_show, easy_show, used_show, rounded) \<Rightarrow>
                   Inr (ConversionReply
                     \<lparr>eur_xe_show = xe_show,
                      eur_easy_show = easy_show,
                      percent_diff = percent_divergence,
                      used_value_show = used_show,
                      rounded_to_use = rounded,
                      easy_rate_shown = rate,
                      updated_time = format_datetime (dict_get cache ''updated_at'')\<rparr>)))) \<and>
     fle (fmin raw_a raw_b) raw_a \<and> fle (fmin raw_a raw_b) raw_b \<and>
     (fmin raw_a raw_b = raw_a \<or> fmin raw_a raw_b = raw_b) \<and>
     fle raw_a (fmax raw_a raw_b) \<and> fle raw_b (fmax raw_a raw_b) \<and>
     (fmax raw_a raw_b = raw_a \<or> fmax raw_a raw_b = raw_b) \<and>
     (\<forall>a b. raw_a = Fin a \<and> raw_b = Fin b \<longrightarrow>
        fmin raw_a raw_b = Fin (min a b) \<and> fmax raw_a raw_b = Fin (max a b))"
proof -
  obtain ratio where r: "fdiv (fabs (fsub raw_a raw_b)) (fmin raw_a raw_b) = Inr ratio"
    using division_by_lower_returns [OF assms] by blast
  define pd where "pd = fmul ratio (Fin 100)"
  define used where "used = (if fle pd (Fin 10) then fmax raw_a raw_b else fmin raw_a raw_b)"
  have rec: "recommend raw_a raw_b = Inr (pd, used)"
    by (simp add: recommend_def r Let_def pd_def used_def)
  have reply: "as_float xe = raw_a \<and> truthy rate \<and> truediv rub_amount rate = Inr raw_b \<longrightarrow>
      reconcile rub_amount (Some xe) rate cache =
        (case present raw_a raw_b used of
           Inl e \<Rightarrow> Inl e
         | Inr (xe_show, easy_show, used_show, rounded) \<Rightarrow>
             Inr (ConversionReply
               \<lparr>eur_xe_show = xe_show,
                eur_easy_show = easy_show,
                percent_diff = pd,
                used_value_show = used_show,
                rounded_to_use = rounded,
                easy_rate_shown = rate,
                updated_time = format_datetime (dict_get cache ''updated_at'')\<rparr>))"
  proof
    assume h: "as_float xe = raw_a \<and> truthy rate \<and> truediv rub_amount rate = Inr raw_b"
    have a: "flt (Fin 0) (as_float xe)"
      using assms(1) h by simp
    have c: "recommend (as_float xe) raw_b = Inr (pd, used)"
      using rec h by simp
    show "reconcile rub_amount (Some xe) rate cache =
        (case present raw_a raw_b used of
           Inl e \<Rightarrow> Inl e
         | Inr (xe_show, easy_show, used_show, rounded) \<Rightarrow>
             Inr (ConversionReply
               \<lparr>eur_xe_show = xe_show,
                eur_easy_show = easy_show,
                percent_diff = pd,
                used_value_show = used_show,
                rounded_to_use = rounded,
                easy_rate_shown = rate,
                updated_time = format_datetime (dict_get cache ''updated_at'')\<rparr>))"
      using reconcile_positive [OF a assms(2) _ _ c, of rate rub_amount cache] h by simp
  qed
  have fin: "\<forall>a b. raw_a = Fin a \<and> raw_b = Fin b \<longrightarrow>
        fmin raw_a raw_b = Fin (min a b) \<and> fmax raw_a raw_b = Fin (max a b)"
    using fmin_fmax_finite by simp
  show ?thesis
    apply (rule exI [of _ ratio])
    unfolding Let_def
    using r rec reply fin fmin_fmax_order [OF assms]
    unfolding pd_def used_def
    by blast
qed

text \<open>
  At 100 EUR from XE and 105 EUR from Easystaff (10,500 RUB at 100 RUB/EUR) the
  quotient is the double nearest to 0.05, the divergence is 5.0 and the higher value is
  recommended; at 100 and 130 the divergence is 30.0 and the lower value is
  recommended.
\<close>

theorem divergence_and_recommendation_witness:
  "flt (Fin 0) (Fin 100) \<and> flt (Fin 0) (Fin 105) \<and>
   as_float 100 = Fin 100 \<and> truthy (JNum 100) \<and> truediv 10500 (JNum 100) = Inr (Fin 105) \<and>
   fdiv (fabs (fsub (Fin 100) (Fin 105))) (fmin (Fin 100) (Fin 105)) = Inr (as_float 0.05) \<and>
   fmul (as_float 0.05) (Fin 100) = Fin 5 \<and>
   recommend (Fin 100) (Fin 105) = Inr (Fin 5, Fin 105) \<and>
   reconcile 10500 (Some 100) (JNum 100) [] =
     Inr (ConversionReply
       \<lparr>eur_xe_show = Fin 100, eur_easy_show = Fin 105, percent_diff = Fin 5,
        used_value_show = Fin 105, rounded_to_use = 105, easy_rate_shown = JNum 100,
        updated_time = UnknownDate\<rparr>) \<and>
   flt (Fin 0) (Fin 130) \<and>
   fdiv (fabs (fsub (Fin 100) (Fin 130))) (fmin (Fin 100) (Fin 130)) = Inr (as_float 0.3) \<and>
   fmul (as_float 0.3) (Fin 100) = Fin 30 \<and>
   recommend (Fin 100) (Fin 130) = Inr (Fin 30, Fin 100)"
proof -
  have p: "flt (Fin 0) (Fin 100)" "flt (Fin 0) (Fin 105)" "flt (Fin 0) (Fin 130)"
    by simp_all
  have h: "as_float 100 = Fin 100" "truthy (JNum 100)"
    "truediv 10500 (JNum 100) = Inr (Fin 105)"
    by (simp_all add: as_float_def roundings)
  have d: "fdiv (fabs (fsub (Fin 100) (Fin 105))) (fmin (Fin 100) (Fin 105))
             = Inr (as_float 0.05)"
    "fmul (as_float 0.05) (Fin 100) = Fin 5"
    by (simp_all add: as_float_def fmin_def roundings)
  have d': "fdiv (fabs (fsub (Fin 100) (Fin 130))) (fmin (Fin 100) (Fin 130))
             = Inr (as_float 0.3)"
    "fmul (as_float 0.3) (Fin 100) = Fin 30"
    by (simp_all add: as_float_def fmin_def roundings)
  have pr: "present (Fin 100) (Fin 105) (Fin 105) = Inr (Fin 100, Fin 105, Fin 105, 105)"
    by (simp add: present_def float_eval roundings printed)
  have 1: "recommend (Fin 100) (Fin 105) = Inr (Fin 5, Fin 105) \<and>
     reconcile 10500 (Some 100) (JNum 100) [] =
       Inr (ConversionReply
         \<lparr>eur_xe_show = Fin 100, eur_easy_show = Fin 105, percent_diff = Fin 5,
          used_value_show = Fin 105, rounded_to_use = 105, easy_rate_shown = JNum 100,
          updated_time = UnknownDate\<rparr>)"
    using divergence_and_recommendation [OF p(1,2), where xe = 100 and rate = "JNum 100"
        and rub_amount = 10500 and cache = "[]"] h d pr
    by (simp add: Let_def fmin_def fmax_def format_datetime_def dict_get_def)
  have 2: "recommend (Fin 100) (Fin 130) = Inr (Fin 30, Fin 100)"
    using divergence_and_recommendation [OF p(1,3), where xe = 100 and rate = "JNum 100"
        and rub_amount = 13000 and cache = "[]"] d'
    by (simp add: Let_def fmin_def fmax_def)
  from p h d d' 1 2 show ?thesis
    by blast
qed

section \<open>The rate cache\<close>

text \<open>
  Claim C2. \<open>load\<close> is to return for every state of the cache file. It does not: for a
  file whose bytes are not valid UTF-8 (a file holding the single byte \<open>0xFF\<close>, say),
  reading raises \<open>UnicodeDecodeError\<close>, which is a \<open>ValueError\<close> but neither a
  \<open>JSONDecodeError\<close> nor an \<open>OSError\<close>, so that the \<open>except\<close> clause of \<open>load\<close> lets it
  through. The same holds for the \<open>RecursionError\<close> and the plain \<open>ValueError\<close> of
  \<open>json.load\<close>, and for the \<open>PermissionError\<close> of \<open>exists\<close>, which is called outside
  the \<open>try\<close> (lemma \<open>load_raises\<close>).
\<close>

theorem load_raises_on_undecodable_file:
  "load Undecodable = Inl UnicodeDecodeError"
  by (simp add: load_def is_instance_def)

text \<open>
  Claim C3. Every rate saved into the cache is to be positive, on the refresh path and
  on the cache-miss path of a request. The cache-miss path only tests the fetched rate
  against \<open>None\<close>: with an empty cache and Easystaff answering \<open>0.0\<close>, the handler saves
  the rate 0, the cache then holds the rate 0, and the next request finds that rate in
  the cache, fetches nothing and replies that the rate is invalid.
\<close>

theorem cache_miss_saves_zero_rate:
  "saved_rates (fst (handle_conversion zero_rate_env Absent)) = [0] \<and>
   cached_rate (fst (snd (handle_conversion zero_rate_env Absent))) = Inr (JNum 0) \<and>
   provider_calls (fst (handle_conversion zero_rate_env
      (fst (snd (handle_conversion zero_rate_env Absent))))) = [XeFetch 10000] \<and>
   replies (fst (handle_conversion zero_rate_env
      (fst (snd (handle_conversion zero_rate_env Absent))))) = [InvalidRate]"
  by (simp add: zero_rate_env_def handle_conversion_def try_block_def update_user_stats_def
      load_def save_def complete_record_def dict_get_def reconcile_zero_rate cached_rate_def
      provider_calls_def)

text \<open>
  Claim C5. After a successful \<open>save r\<close>, \<open>load\<close> returns a record whose rate is \<open>r\<close>
  and whose \<open>updated_at\<close> is read back by \<open>fromisoformat\<close> as the UTC time of the save;
  \<open>format_datetime\<close> shows that time. The clock value \<open>now\<close> is a
  \<open>datetime.now(timezone.utc)\<close>: a valid datetime with offset zero.
\<close>

theorem save_load_round_trip:
  assumes "save r now w f = (f', True)" and "valid_datetime now" and "utcoffset now = Some 0"
  shows "load f' = Inr [(''rate'', JNum r), (''updated_at'', JStr (isoformat now))] \<and>
         cached_rate f' = Inr (JNum r) \<and>
         fromisoformat (isoformat now) = Some now \<and>
         (\<forall>cache. load f' = Inr cache \<longrightarrow>
            dict_get cache ''rate'' = JNum r \<and>
            format_datetime (dict_get cache ''updated_at'') = ShownAt now)"
proof -
  have w: "w = Written"
    using assms(1) by (cases w) (simp_all add: save_def)
  have f': "f' = Document (complete_record r now)"
    using assms(1) by (simp add: save_def w)
  have l: "load f' = Inr [(''rate'', JNum r), (''updated_at'', JStr (isoformat now))]"
    by (simp add: f' load_complete_record)
  show ?thesis
    using format_datetime_isoformat [OF assms(2,3)] fromisoformat_isoformat [OF assms(2,3)]
    by (simp add: l cached_rate_def dict_get_def)
qed

theorem save_load_round_trip_witness:
  "save 85.5 example_clock Written Malformed =
     (Document (JObj [(''rate'', JNum 85.5),
        (''updated_at'', JStr ''2025-11-11T09:30:00.123456+00:00'')]), True) \<and>
   valid_datetime example_clock \<and> utcoffset example_clock = Some 0 \<and>
   cached_rate (Document (JObj [(''rate'', JNum 85.5),
        (''updated_at'', JStr ''2025-11-11T09:30:00.123456+00:00'')])) = Inr (JNum 85.5) \<and>
   fromisoformat ''2025-11-11T09:30:00.123456+00:00'' = Some example_clock"
proof -
  have s: "save 85.5 example_clock Written Malformed =
     (Document (JObj [(''rate'', JNum 85.5),
        (''updated_at'', JStr ''2025-11-11T09:30:00.123456+00:00'')]), True)"
    by (simp add: save_def complete_record_def isoformat_example_clock)
  have v: "valid_datetime example_clock" and u: "utcoffset example_clock = Some 0"
    using valid_example_clock by simp_all
  have "cached_rate (Document (JObj [(''rate'', JNum 85.5),
        (''updated_at'', JStr ''2025-11-11T09:30:00.123456+00:00'')])) = Inr (JNum 85.5) \<and>
     fromisoformat ''2025-11-11T09:30:00.123456+00:00'' = Some example_clock"
    using save_load_round_trip [OF s v u] by (simp add: isoformat_example_clock)
  with s v u show ?thesis
    by blast
qed

section \<open>Display and invoicing values\<close>

text \<open>
  The values that the claim names: 1342.455 is shown as 1342.45, 10.999 as 10.99, and
  100.5 is rounded to 101.
\<close>

lemma display_examples:
  "trunc2 (as_float 1342.455) = Inr (as_float 1342.45) \<and>
   trunc2 (as_float 10.999) = Inr (as_float 10.99) \<and>
   round_half_up (as_float 100.5) = Inr 101"
  by (simp add: float_eval roundings printed)

text \<open>
  The truncation and the rounding work on the float that the division returns. 10,005
  RUB at 80.04 RUB/EUR is 125 EUR exactly; the float quotient is
  \<open>124.99999999999999\<close>, shown as 124.99 and rounded to 125. 10,125.06 RUB at that rate
  is 126.5 EUR exactly; the float quotient is \<open>126.49999999999999\<close>, shown as 126.49
  and rounded to 126.
\<close>

lemma display_of_float_quotient:
  "reconcile 10005 (Some 120) (JNum 80.04) [] =
     Inr (ConversionReply
       \<lparr>eur_xe_show = Fin 120, eur_easy_show = as_float 124.99,
        percent_diff = Fin (4691249611844253 / 1125899906842624),
        used_value_show = as_float 124.99, rounded_to_use = 125,
        easy_rate_shown = JNum 80.04, updated_time = UnknownDate\<rparr>) \<and>
   truediv 10005 (JNum 80.04) = Inr (as_float 124.99999999999999) \<and>
   reconcile 10125.06 (Some 120) (JNum 80.04) [] =
     Inr (ConversionReply
       \<lparr>eur_xe_show = Fin 120, eur_easy_show = as_float 126.49,
        percent_diff = Fin (3049312247698767 / 562949953421312),
        used_value_show = as_float 126.49, rounded_to_use = 126,
        easy_rate_shown = JNum 80.04, updated_time = UnknownDate\<rparr>) \<and>
   truediv 10125.06 (JNum 80.04) = Inr (as_float 126.49999999999999)"
  by (simp add: float_eval recommend_def present_def reconcile_def roundings printed
      format_datetime_def dict_get_def)

text \<open>
  Claim C6 says that every numeric value is truncated for display and rounded for
  invoicing. It is not so from \<open>10^26\<close> on: the float \<open>1e26\<close> has no display value and
  the float \<open>1e28\<close> no invoicing integer, \<open>quantize\<close> raising \<open>InvalidOperation\<close> for
  both. The message \<open>1e30\<close> reaches this: the handler replies that an error occurred.
\<close>

theorem display_value_raises_from_1e26:
  "trunc2 (as_float 100000000000000000000000000) = Inl InvalidOperation \<and>
   round_half_up (as_float 10000000000000000000000000000) = Inl InvalidOperation \<and>
   handle_conversion huge_amount_env old_cache =
     ([XeFetch 1000000000000000000000000000000, CacheLoad, AdminAlert InvalidOperation,
       Reply (ErrorOccurred InvalidOperation)], old_cache, None)"
  by (simp add: float_eval recommend_def present_def reconcile_def roundings printed
      huge_amount_env_def old_cache_def handle_conversion_def try_block_def
      update_user_stats_def handle_error_def load_def dict_get_def)

text \<open>
  Claim C6, amended. Let \<open>s\<close> be the decimal that \<open>str\<close> prints for a finite float
  \<open>x\<close>; it reads back as \<open>x\<close>. When \<open>|s| < 10^26\<close>, the display value is the float
  nearest to \<open>s\<close> truncated toward zero to two decimals: a multiple of 1/100 of the sign
  of \<open>s\<close>, never larger in magnitude than \<open>s\<close> and less than 1/100 below it (1342.455
  gives 1342.45, 10.999 gives 10.99). When \<open>|s| < 10^28 - 1/2\<close>, the invoicing integer
  is the integer nearest to \<open>s\<close>, a half going away from zero (100.5 gives 101). Beyond
  these bounds, and for an infinity, \<open>InvalidOperation\<close> is raised; NaN is displayed as
  NaN and has no invoicing integer. In a conversion reply the three display values are
  the truncated raw values and the invoicing integer is rounded from the recommended
  raw value itself, not from its display value.
\<close>

theorem truncated_display_and_half_up_invoice:
  "(let s = repr_decimal x; d = real_of_int (round_down (s * 100)) / 100 in
      (s = x \<or> round_to_double s = Fin x) \<and>
      trunc2 (Fin x) =
        (if \<bar>s\<bar> < 10 ^ 26 then Inr (round_to_double d) else Inl InvalidOperation) \<and>
      \<bar>d\<bar> \<le> \<bar>s\<bar> \<and> \<bar>s\<bar> - \<bar>d\<bar> < 1 / 100 \<and> 0 \<le> d * s) \<and>
   (let s = repr_decimal y; n = half_up s in
      round_half_up (Fin y) =
        (if \<bar>s\<bar> < 10 ^ 28 - 1 / 2 then Inr n else Inl InvalidOperation) \<and>
      \<bar>real_of_int n - s\<bar> \<le> 1 / 2 \<and>
      (\<bar>real_of_int n - s\<bar> = 1 / 2 \<longrightarrow> \<bar>s\<bar> < \<bar>real_of_int n\<bar>)) \<and>
   trunc2 PosInf = Inl InvalidOperation \<and> trunc2 NegInf = Inl InvalidOperation \<and>
   trunc2 NaN = Inr NaN \<and>
   round_half_up PosInf = Inl InvalidOperation \<and>
   round_half_up NegInf = Inl InvalidOperation \<and>
   round_half_up NaN = Inl ValueError \<and>
   trunc2 (as_float 1342.455) = Inr (as_float 1342.45) \<and>
   trunc2 (as_float 10.999) = Inr (as_float 10.99) \<and>
   round_half_up (as_float 100.5) = Inr 101 \<and>
   (reconcile rub_amount (Some raw_a) rate cache = Inr (ConversionReply c) \<longrightarrow>
      (\<exists>raw_b pd used.
         truediv rub_amount rate = Inr raw_b \<and>
         recommend (as_float raw_a) raw_b = Inr (pd, used) \<and>
         trunc2 (as_float raw_a) = Inr (eur_xe_show c) \<and>
         trunc2 raw_b = Inr (eur_easy_show c) \<and>
         trunc2 used = Inr (used_value_show c) \<and>
         round_half_up used = Inr (rounded_to_use c)))"
proof -
  have 1: "let s = repr_decimal x; d = real_of_int (round_down (s * 100)) / 100 in
      (s = x \<or> round_to_double s = Fin x) \<and>
      trunc2 (Fin x) =
        (if \<bar>s\<bar> < 10 ^ 26 then Inr (round_to_double d) else Inl InvalidOperation) \<and>
      \<bar>d\<bar> \<le> \<bar>s\<bar> \<and> \<bar>s\<bar> - \<bar>d\<bar> < 1 / 100 \<and> 0 \<le> d * s"
    unfolding Let_def
    using repr_decimal_reads_back [of x] trunc2_finite [of x]
      round_down_bounds [of "repr_decimal x"]
    by blast
  have 2: "let s = repr_decimal y; n = half_up s in
      round_half_up (Fin y) =
        (if \<bar>s\<bar> < 10 ^ 28 - 1 / 2 then Inr n else Inl InvalidOperation) \<and>
      \<bar>real_of_int n - s\<bar> \<le> 1 / 2 \<and>
      (\<bar>real_of_int n - s\<bar> = 1 / 2 \<longrightarrow> \<bar>s\<bar> < \<bar>real_of_int n\<bar>)"
    unfolding Let_def
    using round_half_up_finite [of y] half_up_nearest [of "repr_decimal y"]
    by blast
  have 3: "trunc2 PosInf = Inl InvalidOperation \<and> trunc2 NegInf = Inl InvalidOperation \<and>
      trunc2 NaN = Inr NaN \<and>
      round_half_up PosInf = Inl InvalidOperation \<and>
      round_half_up NegInf = Inl InvalidOperation \<and>
      round_half_up NaN = Inl ValueError"
    by simp
  have 4: "reconcile rub_amount (Some raw_a) rate cache = Inr (ConversionReply c) \<longrightarrow>
      (\<exists>raw_b pd used.
         truediv rub_amount rate = Inr raw_b \<and>
         recommend (as_float raw_a) raw_b = Inr (pd, used) \<and>
         trunc2 (as_float raw_a) = Inr (eur_xe_show c) \<and>
         trunc2 raw_b = Inr (eur_easy_show c) \<and>
         trunc2 used = Inr (used_value_show c) \<and>
         round_half_up used = Inr (rounded_to_use c))"
    using reconcile_reply [of rub_amount raw_a rate cache c] by blast
  from 1 2 3 display_examples 4 show ?thesis
    by blast
qed

text \<open>
  10,050 RUB at 100 RUB/EUR against 100 EUR from XE: the recommended raw value is 100.5,
  printed as \<open>100.5\<close>, shown as 100.50 and rounded to 101, half a unit away.
\<close>

theorem truncated_display_and_half_up_invoice_witness:
  "reconcile 10050 (Some 100) (JNum 100) [] =
     Inr (ConversionReply
       \<lparr>eur_xe_show = Fin 100, eur_easy_show = Fin 100.5, percent_diff = Fin 0.5,
        used_value_show = Fin 100.5, rounded_to_use = 101, easy_rate_shown = JNum 100,
        updated_time = UnknownDate\<rparr>) \<and>
   repr_decimal 100.5 = 100.5 \<and>
   \<bar>real_of_int (half_up 100.5) - 100.5\<bar> = 1 / 2 \<and>
   \<bar>100.5 :: real\<bar> < \<bar>real_of_int (half_up 100.5)\<bar> \<and>
   truediv 10050 (JNum 100) = Inr (Fin 100.5) \<and>
   recommend (Fin 100) (Fin 100.5) = Inr (Fin 0.5, Fin 100.5) \<and>
   trunc2 (Fin 100.5) = Inr (Fin 100.5) \<and>
   round_half_up (Fin 100.5) = Inr 101"
proof -
  let ?c = "\<lparr>eur_xe_show = Fin 100, eur_easy_show = Fin 100.5, percent_diff = Fin 0.5,
        used_value_show = Fin 100.5, rounded_to_use = 101, easy_rate_shown = JNum 100,
        updated_time = UnknownDate\<rparr>"
  have r: "reconcile 10050 (Some 100) (JNum 100) [] = Inr (ConversionReply ?c)"
    by (simp add: float_eval recommend_def present_def reconcile_def roundings printed
        format_datetime_def dict_get_def)
  have s: "repr_decimal 100.5 = 100.5"
    by (simp add: printed)
  have h: "\<bar>real_of_int (half_up 100.5) - 100.5\<bar> = 1 / 2"
    by (simp add: half_up_def)
  note t = truncated_display_and_half_up_invoice
    [where x = "100.5" and y = "100.5" and rub_amount = 10050 and raw_a = 100
       and rate = "JNum 100" and cache = "[]" and c = ?c]
  have a: "\<bar>100.5 :: real\<bar> < \<bar>real_of_int (half_up 100.5)\<bar>"
    using t h unfolding Let_def s by blast
  have x: "as_float 100 = Fin 100"
    by (simp add: as_float_def roundings)
  have q: "truediv 10050 (JNum 100) = Inr (Fin 100.5)"
    by (simp add: as_float_def roundings)
  obtain raw_b pd used where rb: "truediv 10050 (JNum 100) = Inr raw_b"
    and rc: "recommend (as_float 100) raw_b = Inr (pd, used)"
    and u: "trunc2 used = Inr (used_value_show ?c)"
    and ro: "round_half_up used = Inr (rounded_to_use ?c)"
    using t r by blast
  have e: "raw_b = Fin 100.5"
    using rb q by simp
  have rc': "recommend (Fin 100) (Fin 100.5) = Inr (Fin 0.5, Fin 100.5)"
    by (simp add: float_eval recommend_def roundings printed)
  have e': "used = Fin 100.5"
    using rc rc' unfolding e x by simp
  have b: "trunc2 (Fin 100.5) = Inr (Fin 100.5) \<and> round_half_up (Fin 100.5) = Inr 101"
    using u ro unfolding e' by simp
  from r s h a q rc' b show ?thesis
    by blast
qed

section \<open>Validation of the amount\<close>

text \<open>
  Claim C7. A request whose amount is not positive or is below 10,000 is answered with
  the matching validation reply, after the statistics update and nothing else: the
  trace holds no call of XE or of Easystaff, and the cache file is as before.
\<close>

theorem small_amount_rejected_before_fetch:
  assumes "text_float env = Inr amount" and "amount \<le> 0 \<or> amount < 10000"
  shows "handle_conversion env f =
           (update_user_stats (stats_out env) @
              [Reply (if amount \<le> 0 then NotPositive else BelowMinimum)], f, None) \<and>
         provider_calls (fst (handle_conversion env f)) = []"
proof -
  have 1: "handle_conversion env f =
           (update_user_stats (stats_out env) @
              [Reply (if amount \<le> 0 then NotPositive else BelowMinimum)], f, None)"
    using assms by (auto simp add: handle_conversion_def Let_def)
  have "provider_calls (fst (handle_conversion env f)) = []"
    unfolding 1
    by (simp add: provider_calls_append provider_calls_stats) (simp add: provider_calls_def)
  with 1 show ?thesis
    by simp
qed

theorem small_amount_rejected_before_fetch_witness:
  "text_float small_amount_env = Inr 5000 \<and> ((5000::real) \<le> 0 \<or> (5000::real) < 10000) \<and>
   handle_conversion small_amount_env old_cache =
     ([StatsUpdate, Reply BelowMinimum], old_cache, None) \<and>
   provider_calls (fst (handle_conversion small_amount_env old_cache)) = []"
proof -
  have t: "text_float small_amount_env = Inr 5000"
    by (simp add: small_amount_env_def)
  have a: "(5000::real) \<le> 0 \<or> (5000::real) < 10000"
    by simp
  have "handle_conversion small_amount_env old_cache =
     ([StatsUpdate, Reply BelowMinimum], old_cache, None) \<and>
   provider_calls (fst (handle_conversion small_amount_env old_cache)) = []"
  proof -
    have "stats_out small_amount_env = Some None"
      by (simp add: small_amount_env_def)
    then show ?thesis
      using small_amount_rejected_before_fetch [OF t a, of old_cache]
      by (simp add: update_user_stats_def provider_calls_def)
  qed
  with t a show ?thesis
    by blast
qed

section \<open>The refresh path\<close>

text \<open>
  Claim C8. When the Easystaff fetch raises, or returns \<open>None\<close> or a rate that is not
  positive, the refresh leaves the cache file as it was, saves nothing and sends the
  administrators exactly one message, a failure notice. Every rate that a refresh
  saves is the fetched rate and is strictly positive.
\<close>

theorem refresh_keeps_cache_on_bad_fetch:
  "((\<exists>e. easystaff_out env = Inl e) \<or> easystaff_out env = Inr None \<or>
      (\<exists>r. easystaff_out env = Inr (Some r) \<and> r \<le> 0)
     \<longrightarrow> snd (update_rate ctx env f) = f \<and>
         saved_rates (fst (update_rate ctx env f)) = [] \<and>
         (\<exists>n. notifications (fst (update_rate ctx env f)) = [n] \<and> is_failure_notice n)) \<and>
   (\<forall>r \<in> set (saved_rates (fst (update_rate ctx env f))).
        0 < r \<and> easystaff_out env = Inr (Some r))"
  by (auto simp add: update_rate_def split: sum.splits option.splits prod.splits)

text \<open>
  A refresh that fetches the rate 0 leaves the cached rate 90 in place; a refresh that
  fetches 85.5 saves 85.5.
\<close>

theorem refresh_keeps_cache_on_bad_fetch_witness:
  "easystaff_out zero_rate_env = Inr (Some 0) \<and> (0::real) \<le> 0 \<and>
   snd (update_rate ''Easystaff daily rate update'' zero_rate_env old_cache) = old_cache \<and>
   saved_rates (fst (update_rate ''Easystaff daily rate update'' zero_rate_env old_cache)) = [] \<and>
   saved_rates (fst (update_rate ''Easystaff daily rate update'' good_rate_env old_cache))
     = [85.5] \<and>
   (85.5::real) \<in> set (saved_rates
       (fst (update_rate ''Easystaff daily rate update'' good_rate_env old_cache))) \<and>
   (0::real) < 85.5"
proof -
  have z: "easystaff_out zero_rate_env = Inr (Some 0)"
    by (simp add: zero_rate_env_def)
  have 1: "snd (update_rate ''Easystaff daily rate update'' zero_rate_env old_cache) = old_cache \<and>
     saved_rates (fst (update_rate ''Easystaff daily rate update'' zero_rate_env old_cache)) = []"
    using refresh_keeps_cache_on_bad_fetch
      [of zero_rate_env "''Easystaff daily rate update''" old_cache] z
    by simp
  have g: "saved_rates (fst (update_rate ''Easystaff daily rate update'' good_rate_env old_cache))
     = [85.5]"
    by (simp add: update_rate_def good_rate_env_def save_def)
  then have m: "(85.5::real) \<in> set (saved_rates
       (fst (update_rate ''Easystaff daily rate update'' good_rate_env old_cache)))"
    by simp
  have p: "(0::real) < 85.5"
    using refresh_keeps_cache_on_bad_fetch
      [of good_rate_env "''Easystaff daily rate update''" old_cache] m
    by blast
  from z 1 g m p show ?thesis
    by simp
qed

section \<open>Connection bootstrap\<close>

lemma retry_loop_shape:
  fixes make_conn :: "int \<Rightarrow> py_exc + 'c"
  shows "retry_loop make_conn uniform retries base cap attempt = (res, sleeps, n) \<Longrightarrow>
     (n = 0 \<longleftrightarrow> retries < attempt) \<and>
     attempt + int n \<le> max attempt (retries + 1) \<and>
     sleeps = map (backoff_delay uniform base cap) [attempt .. attempt + int n - 2] \<and>
     (\<forall>k. attempt \<le> k \<and> k < attempt + int n - 1 \<longrightarrow> (\<exists>e. make_conn k = Inl e)) \<and>
     (n = 0 \<longrightarrow> res = Inr None) \<and>
     (0 < n \<longrightarrow>
        (case make_conn (attempt + int n - 1) of
           Inr c \<Rightarrow> res = Inr (Some c)
         | Inl e \<Rightarrow> res = Inl e \<and> attempt + int n - 1 = retries))"
proof (induction make_conn uniform retries base cap attempt arbitrary: res sleeps n
       rule: retry_loop.induct)
  case (1 make_conn uniform retries base cap attempt)
  show ?case
  proof (cases "attempt > retries")
    case True
    with "1.prems" show ?thesis
      by auto
  next
    case False
    note in_range = False
    show ?thesis
    proof (cases "make_conn attempt")
      case (Inr c)
      with "1.prems" in_range show ?thesis
        by auto
    next
      case (Inl e)
      show ?thesis
      proof (cases "attempt = retries")
        case True
        with "1.prems" Inl show ?thesis
          by auto
      next
        case False
        obtain r sl m where rec:
          "retry_loop make_conn uniform retries base cap (attempt + 1) = (r, sl, m)"
          by (cases "retry_loop make_conn uniform retries base cap (attempt + 1)") auto
        have res: "res = r"
          and sleeps: "sleeps = backoff_delay uniform base cap attempt # sl"
          and n: "n = m + 1"
          using "1.prems" in_range Inl False rec by (simp_all add: backoff_delay_def)
        note ih = "1.IH" [OF in_range Inl False refl rec]
        have m_pos: "0 < m"
          using ih in_range False by auto
        have up: "[attempt .. attempt + int n - 2]
                    = attempt # [attempt + 1 .. attempt + 1 + int m - 2]"
          using m_pos n by (simp add: upto_rec1)
        have fails: "\<forall>k. attempt \<le> k \<and> k < attempt + int n - 1 \<longrightarrow> (\<exists>e. make_conn k = Inl e)"
        proof (intro allI impI)
          fix k
          assume k: "attempt \<le> k \<and> k < attempt + int n - 1"
          show "\<exists>e. make_conn k = Inl e"
          proof (cases "k = attempt")
            case True
            then show ?thesis
              using Inl by simp
          next
            case False
            with k n have "attempt + 1 \<le> k \<and> k < attempt + 1 + int m - 1"
              by simp
            with ih show ?thesis
              by blast
          qed
        qed
        have last: "attempt + int n - 1 = attempt + 1 + int m - 1"
          using n by simp
        show ?thesis
          unfolding res sleeps up last
          using ih m_pos n fails in_range by (simp add: last)
      qed
    qed
  qed
qed

text \<open>
  Claim C9. The bootstrap calls \<open>make_conn\<close> at most \<open>retries\<close> times. It sleeps once
  after every failed attempt \<open>k\<close> but the last one made, for
  \<open>min(cap, base * 2^(k-1))\<close> times the value drawn by \<open>random.uniform(1.0, 1.4)\<close>, so
  that with a non-negative base and cap no delay exceeds 1.4 times the cap. When all
  \<open>retries\<close> attempts fail, it makes exactly \<open>retries\<close> attempts and raises the error
  of the last one.
\<close>

theorem bootstrap_attempts_backoff_and_last_error:
  fixes make_conn :: "int \<Rightarrow> py_exc + 'c"
  assumes "connect_with_retries make_conn uniform retries base cap = (res, sleeps, n)"
  shows "int n \<le> max 0 retries \<and>
         sleeps = map (\<lambda>k. min cap (base * 2 ^ nat (k - 1)) * uniform k) [1 .. int n - 1] \<and>
         (\<forall>k. 1 \<le> k \<and> k < int n \<longrightarrow> (\<exists>e. make_conn k = Inl e)) \<and>
         ((\<forall>k. 1 \<le> uniform k \<and> uniform k \<le> 14 / 10) \<and> 0 \<le> base \<and> 0 \<le> cap \<longrightarrow>
            (\<forall>d \<in> set sleeps. 0 \<le> d \<and> d \<le> cap * (14 / 10))) \<and>
         (1 \<le> retries \<and> (\<forall>k. 1 \<le> k \<and> k \<le> retries \<longrightarrow> (\<exists>e. make_conn k = Inl e)) \<longrightarrow>
            int n = retries \<and> (\<exists>e. make_conn retries = Inl e \<and> res = Inl e))"
proof -
  have loop: "retry_loop make_conn uniform retries base cap 1 = (res, sleeps, n)"
    using assms by (simp add: connect_with_retries_def)
  note s = retry_loop_shape [OF loop]
  have bound: "int n \<le> max 0 retries"
    using s by auto
  have sl: "sleeps = map (\<lambda>k. min cap (base * 2 ^ nat (k - 1)) * uniform k) [1 .. int n - 1]"
  proof -
    have "(1::int) + int n - 2 = int n - 1"
      by simp
    moreover have "backoff_delay uniform base cap
        = (\<lambda>k. min cap (base * 2 ^ nat (k - 1)) * uniform k)"
      by (rule ext) (simp add: backoff_delay_def)
    ultimately show ?thesis
      using s by simp
  qed
  have fails: "\<forall>k. 1 \<le> k \<and> k < int n \<longrightarrow> (\<exists>e. make_conn k = Inl e)"
    using s by auto
  have delays: "(\<forall>k. 1 \<le> uniform k \<and> uniform k \<le> 14 / 10) \<and> 0 \<le> base \<and> 0 \<le> cap \<longrightarrow>
            (\<forall>d \<in> set sleeps. 0 \<le> d \<and> d \<le> cap * (14 / 10))"
  proof (intro impI ballI)
    fix d
    assume h: "(\<forall>k. 1 \<le> uniform k \<and> uniform k \<le> 14 / 10) \<and> 0 \<le> base \<and> 0 \<le> cap"
      and d: "d \<in> set sleeps"
    from d sl obtain k where k: "d = min cap (base * 2 ^ nat (k - 1)) * uniform k"
      by auto
    define m where "m = min cap (base * 2 ^ nat (k - 1))"
    have m0: "0 \<le> m" and m1: "m \<le> cap"
      using h by (simp_all add: m_def)
    have u: "1 \<le> uniform k" "uniform k \<le> 14 / 10"
      using h by simp_all
    have "0 \<le> m * uniform k"
      using m0 u by simp
    moreover have "m * uniform k \<le> cap * (14 / 10)"
      using m0 m1 u by (intro mult_mono) simp_all
    ultimately show "0 \<le> d \<and> d \<le> cap * (14 / 10)"
      unfolding k m_def [symmetric] by simp
  qed
  have all_fail: "1 \<le> retries \<and> (\<forall>k. 1 \<le> k \<and> k \<le> retries \<longrightarrow> (\<exists>e. make_conn k = Inl e)) \<longrightarrow>
            int n = retries \<and> (\<exists>e. make_conn retries = Inl e \<and> res = Inl e)"
  proof
    assume h: "1 \<le> retries \<and> (\<forall>k. 1 \<le> k \<and> k \<le> retries \<longrightarrow> (\<exists>e. make_conn k = Inl e))"
    have n_pos: "0 < n"
      using s h by auto
    have n_le: "int n \<le> retries"
      using bound h by simp
    then have "1 \<le> int n \<and> int n \<le> retries"
      using n_pos by simp
    then obtain e where e: "make_conn (int n) = Inl e"
      using h by blast
    have "(case make_conn (1 + int n - 1) of
             Inr c \<Rightarrow> res = Inr (Some c)
           | Inl e \<Rightarrow> res = Inl e \<and> 1 + int n - 1 = retries)"
      using s n_pos by blast
    then have "res = Inl e \<and> int n = retries"
      using e by simp
    then show "int n = retries \<and> (\<exists>e. make_conn retries = Inl e \<and> res = Inl e)"
      using e by auto
  qed
  from bound sl fails delays all_fail show ?thesis
    by blast
qed

text \<open>
  Three attempts against a database that refuses each one, with base 0.5, cap 5 and
  every draw equal to 1.2: delays of 0.6 and 1.2 seconds, then the \<open>RuntimeError\<close> of
  the third attempt.
\<close>

theorem bootstrap_attempts_backoff_and_last_error_witness:
  "connect_with_retries failing_db (\<lambda>k. 12 / 10) 3 (1 / 2) 5
     = (Inl RuntimeError, [6 / 10, 12 / 10], 3) \<and>
   int 3 \<le> max 0 3 \<and>
   failing_db 1 = Inl IOError \<and> failing_db 2 = Inl IOError \<and>
   failing_db 3 = Inl RuntimeError \<and>
   (6::real) / 10 \<le> 5 * (14 / 10) \<and> (12::real) / 10 \<le> 5 * (14 / 10) \<and>
   (\<exists>e. failing_db 3 = Inl e \<and> (Inl RuntimeError :: py_exc + unit option) = Inl e)"
proof -
  have c: "connect_with_retries failing_db (\<lambda>k. 12 / 10) 3 (1 / 2) 5
     = (Inl RuntimeError, [6 / 10, 12 / 10], 3)"
    by (simp add: connect_with_retries_def failing_db_def)
  have u: "\<forall>k::int. (1::real) \<le> 12 / 10 \<and> (12::real) / 10 \<le> 14 / 10"
    by simp
  have d: "failing_db 1 = Inl IOError" "failing_db 2 = Inl IOError"
    "failing_db 3 = Inl RuntimeError"
    by (simp_all add: failing_db_def)
  have f: "\<forall>k. 1 \<le> k \<and> k \<le> 3 \<longrightarrow> (\<exists>e. failing_db k = Inl e)"
    by (simp add: failing_db_def)
  note t = bootstrap_attempts_backoff_and_last_error [OF c]
  have 1: "int 3 \<le> max 0 3"
    using t by blast
  have b0: "(0::real) \<le> 1 / 2" and c0: "(0::real) \<le> 5" and r1: "(1::int) \<le> 3"
    by simp_all
  have "\<forall>d \<in> set [6 / 10, 12 / 10 :: real]. 0 \<le> d \<and> d \<le> 5 * (14 / 10)"
    using t u b0 c0 by blast
  then have 2: "(6::real) / 10 \<le> 5 * (14 / 10)" "(12::real) / 10 \<le> 5 * (14 / 10)"
    by simp_all
  have 3: "\<exists>e. failing_db 3 = Inl e \<and> (Inl RuntimeError :: py_exc + unit option) = Inl e"
    using t f r1 by blast
  from c 1 d 2 3 show ?thesis
    by blast
qed
section \<open>Overlapping refresh calls\<close>

text \<open>
  What a refresh does to the cache file when the write is not interrupted: nothing, or
  it replaces the file by the complete record of the fetched rate, which is positive.
\<close>

lemma update_rate_file:
  assumes "write_out env \<noteq> Interrupted"
  shows "snd (update_rate context env f) = f \<or>
         (\<exists>r. easystaff_out env = Inr (Some r) \<and> 0 < r \<and>
              snd (update_rate context env f) = Document (complete_record r (clock env)))"
  using assms
  by (cases "write_out env")
     (auto simp add: update_rate_def save_def split: sum.splits option.splits)

lemma update_rate_interrupted:
  assumes "write_out env = Interrupted" and "easystaff_out env = Inr (Some r)" and "0 < r"
  shows "snd (update_rate context env f) = Malformed"
  using assms by (simp add: update_rate_def save_def)

lemma file_states_invariant:
  assumes "\<forall>s \<in> set sched. \<forall>g. P g \<longrightarrow> P (s g)" and "P f"
  shows "\<forall>g \<in> set (file_states sched f). P g"
  using assms by (induction sched arbitrary: f) auto

text \<open>
  Claim C4 says that overlapping refresh calls never leave the file partially written
  and that a reader finds the old or the new complete record. It is not so when a write
  fails part-way: \<open>save\<close> opens the file itself for writing, which empties it, and
  writes the record into it; it does not write a second file and rename it. In the
  schedule below the first call replaces the record of the rate 90 by the record of the
  rate 85.5, then the write of the second call is interrupted. From then on the file is
  not a JSON document, and a reader gets the empty record: neither the old rate nor a
  new one.
\<close>

theorem interrupted_write_leaves_truncated_file:
  "[\<lambda>f. f, \<lambda>f. f,
    \<lambda>f. snd (update_rate ''Easystaff morning rate update'' good_rate_env f),
    \<lambda>f. snd (update_rate ''Easystaff daily rate update'' interrupted_env f),
    \<lambda>f. f, \<lambda>f. f]
     \<in> shuffles (refresh_sections ''Easystaff morning rate update'' good_rate_env)
         (refresh_sections ''Easystaff daily rate update'' interrupted_env) \<and>
   file_states
     [\<lambda>f. f, \<lambda>f. f,
      \<lambda>f. snd (update_rate ''Easystaff morning rate update'' good_rate_env f),
      \<lambda>f. snd (update_rate ''Easystaff daily rate update'' interrupted_env f),
      \<lambda>f. f, \<lambda>f. f] old_cache =
     [old_cache, old_cache, old_cache, Document (complete_record 85.5 example_clock),
      Malformed, Malformed, Malformed] \<and>
   save 86 later_clock Interrupted (Document (complete_record 85.5 example_clock))
     = (Malformed, False) \<and>
   load Malformed = Inr [] \<and>
   cached_rate Malformed = Inr JNull \<and>
   cached_rate old_cache = Inr (JNum 90) \<and>
   cached_rate (Document (complete_record 85.5 example_clock)) = Inr (JNum 85.5)"
proof -
  have m: "[\<lambda>f. f, \<lambda>f. f,
    \<lambda>f. snd (update_rate ''Easystaff morning rate update'' good_rate_env f),
    \<lambda>f. snd (update_rate ''Easystaff daily rate update'' interrupted_env f),
    \<lambda>f. f, \<lambda>f. f]
     \<in> shuffles (refresh_sections ''Easystaff morning rate update'' good_rate_env)
         (refresh_sections ''Easystaff daily rate update'' interrupted_env)"
    unfolding refresh_sections_def
    by (rule Cons_in_shuffles_leftI, rule Cons_in_shuffles_rightI,
        rule Cons_in_shuffles_leftI, rule Cons_in_shuffles_rightI,
        rule Cons_in_shuffles_leftI) simp
  have s: "file_states
     [\<lambda>f. f, \<lambda>f. f,
      \<lambda>f. snd (update_rate ''Easystaff morning rate update'' good_rate_env f),
      \<lambda>f. snd (update_rate ''Easystaff daily rate update'' interrupted_env f),
      \<lambda>f. f, \<lambda>f. f] old_cache =
     [old_cache, old_cache, old_cache, Document (complete_record 85.5 example_clock),
      Malformed, Malformed, Malformed]"
    by (simp add: update_rate_def good_rate_env_def interrupted_env_def save_def)
  have r: "save 86 later_clock Interrupted (Document (complete_record 85.5 example_clock))
     = (Malformed, False)"
    "load Malformed = Inr []"
    "cached_rate Malformed = Inr JNull"
    "cached_rate old_cache = Inr (JNum 90)"
    "cached_rate (Document (complete_record 85.5 example_clock)) = Inr (JNum 85.5)"
    by (simp_all add: save_def load_def is_instance_def cached_rate_def dict_get_def
        old_cache_def complete_record_def)
  from m s r show ?thesis
    by blast
qed

text \<open>
  Claim C4, amended. Take any schedule of the sections of two refresh calls, from any
  state \<open>f\<close> of the cache file, in which neither write is interrupted. Every state of
  the file that a reader can find is \<open>f\<close> or the complete record that one of the two
  calls has saved: the rate that the call fetched, which is positive, and the time of
  its save. \<open>load\<close> returns such a record in full. A refresh whose write is interrupted
  leaves a file that is not a JSON document, which \<open>load\<close> reads as the empty record.
\<close>

theorem overlapping_refreshes_keep_complete_record:
  assumes "sched \<in> shuffles (refresh_sections context1 env1) (refresh_sections context2 env2)"
    and "write_out env1 \<noteq> Interrupted" and "write_out env2 \<noteq> Interrupted"
  shows "(\<forall>g \<in> set (file_states sched f).
            g = f \<or>
            (\<exists>r. easystaff_out env1 = Inr (Some r) \<and> 0 < r \<and>
                 g = Document (complete_record r (clock env1))) \<or>
            (\<exists>r. easystaff_out env2 = Inr (Some r) \<and> 0 < r \<and>
                 g = Document (complete_record r (clock env2)))) \<and>
         (\<forall>r t. load (Document (complete_record r t)) =
                  Inr [(''rate'', JNum r), (''updated_at'', JStr (isoformat t))]) \<and>
         (\<forall>env r g. write_out env = Interrupted \<and> easystaff_out env = Inr (Some r) \<and> 0 < r
            \<longrightarrow> snd (update_rate context1 env g) = Malformed) \<and>
         load Malformed = Inr []"
proof -
  define P where "P = (\<lambda>g. g = f \<or>
            (\<exists>r. easystaff_out env1 = Inr (Some r) \<and> 0 < r \<and>
                 g = Document (complete_record r (clock env1))) \<or>
            (\<exists>r. easystaff_out env2 = Inr (Some r) \<and> 0 < r \<and>
                 g = Document (complete_record r (clock env2))))"
  have sections: "set sched =
      set (refresh_sections context1 env1) \<union> set (refresh_sections context2 env2)"
    using set_shuffles [OF assms(1)] .
  have step: "\<forall>s \<in> set sched. \<forall>g. P g \<longrightarrow> P (s g)"
  proof (intro ballI allI impI)
    fix s g
    assume s: "s \<in> set sched" and g: "P g"
    from s sections consider
        "s = (\<lambda>f. f)"
      | "s = (\<lambda>f. snd (update_rate context1 env1 f))"
      | "s = (\<lambda>f. snd (update_rate context2 env2 f))"
      by (auto simp add: refresh_sections_def)
    then show "P (s g)"
    proof cases
      case 1
      then show ?thesis
        using g by simp
    next
      case 2
      then show ?thesis
        using g update_rate_file [OF assms(2), of context1 g] unfolding P_def by auto
    next
      case 3
      then show ?thesis
        using g update_rate_file [OF assms(3), of context2 g] unfolding P_def by auto
    qed
  qed
  have "P f"
    by (simp add: P_def)
  then have "\<forall>g \<in> set (file_states sched f). P g"
    using file_states_invariant [of sched P f] step by blast
  then have 1: "\<forall>g \<in> set (file_states sched f).
            g = f \<or>
            (\<exists>r. easystaff_out env1 = Inr (Some r) \<and> 0 < r \<and>
                 g = Document (complete_record r (clock env1))) \<or>
            (\<exists>r. easystaff_out env2 = Inr (Some r) \<and> 0 < r \<and>
                 g = Document (complete_record r (clock env2)))"
    unfolding P_def .
  have 2: "\<forall>env r g. write_out env = Interrupted \<and> easystaff_out env = Inr (Some r) \<and> 0 < r
            \<longrightarrow> snd (update_rate context1 env g) = Malformed"
    using update_rate_interrupted by blast
  have 3: "load Malformed = Inr []"
    by (simp add: load_def is_instance_def)
  from 1 load_complete_record 2 3 show ?thesis
    by blast
qed

text \<open>
  Two refresh calls a second apart, the first fetching 85.5 and the second 86, with the
  sections of the second call run right after those of the first: a reader finds the
  record of the rate 90, then that of 85.5, then that of 86.
\<close>

theorem overlapping_refreshes_keep_complete_record_witness:
  "[\<lambda>f. f, \<lambda>f. f,
    \<lambda>f. snd (update_rate ''Easystaff morning rate update'' good_rate_env f),
    \<lambda>f. snd (update_rate ''Easystaff daily rate update'' later_rate_env f),
    \<lambda>f. f, \<lambda>f. f]
     \<in> shuffles (refresh_sections ''Easystaff morning rate update'' good_rate_env)
         (refresh_sections ''Easystaff daily rate update'' later_rate_env) \<and>
   write_out good_rate_env \<noteq> Interrupted \<and> write_out later_rate_env \<noteq> Interrupted \<and>
   file_states
     [\<lambda>f. f, \<lambda>f. f,
      \<lambda>f. snd (update_rate ''Easystaff morning rate update'' good_rate_env f),
      \<lambda>f. snd (update_rate ''Easystaff daily rate update'' later_rate_env f),
      \<lambda>f. f, \<lambda>f. f] old_cache =
     [old_cache, old_cache, old_cache, Document (complete_record 85.5 example_clock),
      Document (complete_record 86 later_clock), Document (complete_record 86 later_clock),
      Document (complete_record 86 later_clock)] \<and>
   Document (complete_record 86 later_clock) \<noteq> old_cache \<and>
   easystaff_out good_rate_env = Inr (Some 85.5) \<and>
   easystaff_out later_rate_env = Inr (Some 86) \<and>
   clock good_rate_env = example_clock \<and> clock later_rate_env = later_clock \<and>
   load (Document (complete_record 86 later_clock)) =
     Inr [(''rate'', JNum 86), (''updated_at'', JStr ''2025-11-11T09:30:01+00:00'')]"
proof -
  let ?sched = "[\<lambda>f. f, \<lambda>f. f,
    \<lambda>f. snd (update_rate ''Easystaff morning rate update'' good_rate_env f),
    \<lambda>f. snd (update_rate ''Easystaff daily rate update'' later_rate_env f),
    \<lambda>f. f, \<lambda>f. f]"
  have m: "?sched
     \<in> shuffles (refresh_sections ''Easystaff morning rate update'' good_rate_env)
         (refresh_sections ''Easystaff daily rate update'' later_rate_env)"
    unfolding refresh_sections_def
    by (rule Cons_in_shuffles_leftI, rule Cons_in_shuffles_rightI,
        rule Cons_in_shuffles_leftI, rule Cons_in_shuffles_rightI,
        rule Cons_in_shuffles_leftI) simp
  have w: "write_out good_rate_env \<noteq> Interrupted" "write_out later_rate_env \<noteq> Interrupted"
    by (simp_all add: good_rate_env_def later_rate_env_def)
  have s: "file_states ?sched old_cache =
     [old_cache, old_cache, old_cache, Document (complete_record 85.5 example_clock),
      Document (complete_record 86 later_clock), Document (complete_record 86 later_clock),
      Document (complete_record 86 later_clock)]"
    by (simp add: update_rate_def good_rate_env_def later_rate_env_def save_def)
  have n: "Document (complete_record 86 later_clock) \<noteq> old_cache"
    by (simp add: old_cache_def complete_record_def)
  have e: "easystaff_out good_rate_env = Inr (Some 85.5)"
    "easystaff_out later_rate_env = Inr (Some 86)"
    "clock good_rate_env = example_clock" "clock later_rate_env = later_clock"
    by (simp_all add: good_rate_env_def later_rate_env_def)
  have i: "isoformat later_clock = ''2025-11-11T09:30:01+00:00''"
    by (simp add: isoformat_def later_clock_def pad2_def pad4_def pad6_def offset_str_def
        digit_chars)
  note t = overlapping_refreshes_keep_complete_record [OF m w, of old_cache]
  have l: "load (Document (complete_record 86 later_clock)) =
     Inr [(''rate'', JNum 86), (''updated_at'', JStr ''2025-11-11T09:30:01+00:00'')]"
    using t i by simp
  from m w s n e l show ?thesis
    by blast
qed

section \<open>A zero rate in a request\<close>

text \<open>
  Claim C10. When the rate obtained from Easystaff is zero, from the cache or from the
  fetch after a cache miss, nothing is raised inside the \<open>try\<close>: the division, which
  alone would raise \<open>ZeroDivisionError\<close>, is skipped, the Easystaff raw value is 0.0,
  and the last reply of the handler is that the rate is zero or invalid.
\<close>

theorem zero_rate_is_guarded:
  assumes "text_float env = Inr amount" and "10000 \<le> amount" and "xe_out env = Inr xe"
    and "cached_rate f = Inr (JNum 0) \<or>
         (cached_rate f = Inr JNull \<and> easystaff_out env = Inr (Some 0))"
  shows "truediv amount (JNum 0) = Inl ZeroDivisionError \<and>
         (\<forall>cache. reconcile amount xe (JNum 0) cache = Inr InvalidRate) \<and>
         (\<exists>evs f'. try_block env f amount = (evs @ [Reply InvalidRate], f', None) \<and>
            handle_conversion env f =
              (update_user_stats (stats_out env) @ evs @ [Reply InvalidRate], f', None))"
proof -
  have amt: "\<not> amount \<le> 0" "\<not> amount < 10000"
    using assms(2) by simp_all
  have "\<exists>evs f'. try_block env f amount = (evs @ [Reply InvalidRate], f', None)"
    using assms(4)
  proof
    assume "cached_rate f = Inr (JNum 0)"
    then obtain cache where c: "load f = Inr cache" "dict_get cache ''rate'' = JNum 0"
      by (auto simp add: cached_rate_def split: sum.splits)
    have "try_block env f amount = ([XeFetch amount, CacheLoad] @ [Reply InvalidRate], f, None)"
      by (simp add: try_block_def assms(3) c reconcile_zero_rate)
    then show ?thesis
      by blast
  next
    assume a: "cached_rate f = Inr JNull \<and> easystaff_out env = Inr (Some 0)"
    then obtain cache where c: "load f = Inr cache" "dict_get cache ''rate'' = JNull"
      by (auto simp add: cached_rate_def split: sum.splits)
    obtain cache' where c': "load (fst (save 0 (clock env) (write_out env) f)) = Inr cache'"
      using load_after_save [OF c(1)] by blast
    have "try_block env f amount =
            ([XeFetch amount, CacheLoad, Reply ReceivingRate, EasystaffFetch, CacheSave 0,
              CacheLoad] @ [Reply InvalidRate],
             fst (save 0 (clock env) (write_out env) f), None)"
      using a c'
      by (simp add: try_block_def assms(3) c reconcile_zero_rate split_beta)
    then show ?thesis
      by blast
  qed
  then obtain evs f' where t: "try_block env f amount = (evs @ [Reply InvalidRate], f', None)"
    by blast
  have "handle_conversion env f =
          (update_user_stats (stats_out env) @ evs @ [Reply InvalidRate], f', None)"
    by (simp add: handle_conversion_def assms(1) amt t)
  with t show ?thesis
    by (simp add: reconcile_zero_rate as_float_zero)
qed

text \<open>A request against a cache file that holds the rate 0.\<close>

theorem zero_rate_is_guarded_witness:
  "text_float good_rate_env = Inr 10050 \<and> (10000::real) \<le> 10050 \<and>
   xe_out good_rate_env = Inr (Some 100) \<and>
   cached_rate (Document (JObj [(''rate'', JNum 0)])) = Inr (JNum 0) \<and>
   truediv 10050 (JNum 0) = Inl ZeroDivisionError \<and>
   handle_conversion good_rate_env (Document (JObj [(''rate'', JNum 0)])) =
     ([XeFetch 10050, CacheLoad, Reply InvalidRate], Document (JObj [(''rate'', JNum 0)]), None)"
proof -
  let ?f = "Document (JObj [(''rate'', JNum 0)])"
  have t: "text_float good_rate_env = Inr 10050"
    by (simp add: good_rate_env_def)
  have a: "(10000::real) \<le> 10050"
    by simp
  have x: "xe_out good_rate_env = Inr (Some 100)"
    by (simp add: good_rate_env_def)
  have c: "cached_rate ?f = Inr (JNum 0)"
    by (simp add: cached_rate_def load_def dict_get_def)
  have c': "cached_rate ?f = Inr (JNum 0) \<or>
      (cached_rate ?f = Inr JNull \<and> easystaff_out good_rate_env = Inr (Some 0))"
    using c by simp
  note z = zero_rate_is_guarded [OF t a x c']
  have d: "truediv 10050 (JNum 0) = Inl ZeroDivisionError"
    using z by blast
  obtain evs f' where e: "try_block good_rate_env ?f 10050 = (evs @ [Reply InvalidRate], f', None)"
    and h: "handle_conversion good_rate_env ?f =
              (update_user_stats (stats_out good_rate_env) @ evs @ [Reply InvalidRate], f', None)"
    using z by blast
  have "try_block good_rate_env ?f 10050 = ([XeFetch 10050, CacheLoad] @ [Reply InvalidRate], ?f, None)"
    by (simp add: try_block_def good_rate_env_def load_def dict_get_def
        reconcile_zero_rate)
  with e have "evs = [XeFetch 10050, CacheLoad] \<and> f' = ?f"
    by simp
  moreover have "stats_out good_rate_env = None"
    by (simp add: good_rate_env_def)
  ultimately have "handle_conversion good_rate_env ?f =
     ([XeFetch 10050, CacheLoad, Reply InvalidRate], ?f, None)"
    using h by (simp add: update_user_stats_def)
  with t a x c d show ?thesis
    by blast
qed


end
